theory Spec2Isabelle
  imports Main "HOL-Library.Word"
begin

section \<open>Ghost Pool AMM: the pool contract and the front end's quote\<close>

text \<open>
  The pool contract (\<^verbatim>\<open>ghostpool_pool.rs\<close>, module \<^verbatim>\<open>GhostPoolPool\<close>) and its LP token
  (\<^verbatim>\<open>lp_token.rs\<close>) are embedded function by function. Storage is a record; every
  entry point is a state transformer that returns either an error or a value together
  with the storage as it stands at that moment, so that the writes made before a failure
  stay visible to the theorems (the host discards them when it reverts).
\<close>

subsection \<open>Values and errors\<close>

type_synonym address = nat
type_synonym public_key = nat
type_synonym u64 = "64 word"

text \<open>
  \<^verbatim>\<open>U512\<close> and \<^verbatim>\<open>U256\<close> values are natural numbers below \<open>2 ^ 512\<close> and \<open>2 ^ 256\<close>.
  Their operators \<^verbatim>\<open>+\<close>, \<^verbatim>\<open>-\<close>, \<^verbatim>\<open>*\<close> panic when the result leaves the range and
  \<^verbatim>\<open>/\<close> panics on a zero divisor; \<^verbatim>\<open>as_u64\<close> and \<^verbatim>\<open>as_u128\<close> panic when the value
  does not fit. The panic records which kind of operation left the range (the library's
  message is the same for all three operators). A \<^verbatim>\<open>require!\<close> that fails reverts with
  its message, a failed \<^verbatim>\<open>expect\<close> panics with its message. The two \<^verbatim>\<open>u64\<close> additions
  of the contract are additions of 64-bit words.
\<close>

datatype panic =
    ArithmeticOverflow
  | ArithmeticUnderflow
  | DivisionByZero
  | CastOverflow
  | ExpectFailed string

datatype error = Revert string | Panic panic

type_synonym 'a result = "error + 'a"

definition U512_LIMIT :: nat where
  "U512_LIMIT = 2 ^ 512"

definition U256_LIMIT :: nat where
  "U256_LIMIT = 2 ^ 256"

definition U128_LIMIT :: nat where
  "U128_LIMIT = 2 ^ 128"

definition U64_LIMIT :: nat where
  "U64_LIMIT = 2 ^ 64"

definition u512_add :: "nat \<Rightarrow> nat \<Rightarrow> nat result" where
  "u512_add a b = (if a + b < U512_LIMIT then Inr (a + b) else Inl (Panic ArithmeticOverflow))"

definition u512_sub :: "nat \<Rightarrow> nat \<Rightarrow> nat result" where
  "u512_sub a b = (if b \<le> a then Inr (a - b) else Inl (Panic ArithmeticUnderflow))"

definition u512_mul :: "nat \<Rightarrow> nat \<Rightarrow> nat result" where
  "u512_mul a b = (if a * b < U512_LIMIT then Inr (a * b) else Inl (Panic ArithmeticOverflow))"

definition u512_div :: "nat \<Rightarrow> nat \<Rightarrow> nat result" where
  "u512_div a b = (if b = 0 then Inl (Panic DivisionByZero) else Inr (a div b))"

definition u256_add :: "nat \<Rightarrow> nat \<Rightarrow> nat result" where
  "u256_add a b = (if a + b < U256_LIMIT then Inr (a + b) else Inl (Panic ArithmeticOverflow))"

definition u256_sub :: "nat \<Rightarrow> nat \<Rightarrow> nat result" where
  "u256_sub a b = (if b \<le> a then Inr (a - b) else Inl (Panic ArithmeticUnderflow))"

definition as_u64 :: "nat \<Rightarrow> nat result" where
  "as_u64 x = (if x < U64_LIMIT then Inr x else Inl (Panic CastOverflow))"

definition as_u128 :: "nat \<Rightarrow> nat result" where
  "as_u128 x = (if x < U128_LIMIT then Inr x else Inl (Panic CastOverflow))"

subsection \<open>Storage, environment and effects\<close>

record withdrawal_request =
  w_id :: u64
  w_user :: address
  w_lp_burned :: nat
  w_cspr_amount :: nat
  w_token_amount :: nat
  w_request_time :: u64
  w_claimable_time :: u64
  w_claimed :: bool

datatype event =
    LiquidityAdded address nat nat nat
  | LiquidityRemoved address nat nat nat u64
  | WithdrawalClaimed address u64 nat
  | Swap address nat nat nat nat
  | Compounded nat nat nat

text \<open>
  What the contract does to its collaborators, in the order it does it: calls of the
  paired CEP-18 token, calls of the system auction, native transfers out of the
  contract's purse, and events. The collaborators are outside the model: a call is
  recorded and returns.
\<close>

datatype effect =
    TokenTransfer address nat
  | TokenTransferFrom address address nat
  | AuctionDelegate public_key nat
  | AuctionUndelegate public_key nat
  | AuctionWithdrawReward public_key
  | TransferTokens address nat
  | Emit event

text \<open>
  A \<^verbatim>\<open>Var\<close> read with \<^verbatim>\<open>get_or_default\<close> is a field holding its default until it is
  set; a \<^verbatim>\<open>Var\<close> read with \<^verbatim>\<open>get().expect(..)\<close> is an option. The LP token submodule
  contributes \<open>lp_pool\<close> and the two fields of its CEP-18 ledger.
\<close>

record contract =
  token_address :: "address option"
  lp_total_supply :: nat
  lp_balances :: "address \<Rightarrow> nat"
  lp_pool :: "address option"
  reserve_cspr :: nat
  reserve_token :: nat
  staked_cspr :: nat
  buffer_cspr :: nat
  validator :: "public_key option"
  buffer_target_bps :: nat
  swap_fee_bps :: nat
  protocol_fee_bps :: nat
  treasury :: "address option"
  withdrawal_counter :: u64
  withdrawals :: "u64 \<Rightarrow> withdrawal_request option"
  user_withdrawals :: "address \<Rightarrow> u64 list"
  admin :: "address option"
  minimum_liquidity :: nat
  trace :: "effect list"

text \<open>
  The execution environment of one call: \<^verbatim>\<open>env().caller()\<close>, \<^verbatim>\<open>attached_value()\<close>,
  \<^verbatim>\<open>get_block_time()\<close>, \<^verbatim>\<open>self_address()\<close>, and the reward the auction reports for
  the pool's delegation.
\<close>

record env =
  caller :: address
  attached_value :: nat
  block_time :: u64
  self_address :: address
  pending_rewards :: nat

subsection \<open>Sequencing\<close>

type_synonym 'a exec = "contract \<Rightarrow> 'a result \<times> contract"

definition ret :: "'a \<Rightarrow> 'a exec" where
  "ret x = (\<lambda>s. (Inr x, s))"

definition throw :: "error \<Rightarrow> 'a exec" where
  "throw e = (\<lambda>s. (Inl e, s))"

definition bnd :: "'a exec \<Rightarrow> ('a \<Rightarrow> 'b exec) \<Rightarrow> 'b exec" where
  "bnd m f = (\<lambda>s. case m s of (Inl e, s') \<Rightarrow> (Inl e, s') | (Inr x, s') \<Rightarrow> f x s')"

definition seq :: "unit exec \<Rightarrow> 'b exec \<Rightarrow> 'b exec" where
  "seq m n = bnd m (\<lambda>_. n)"

definition gets :: "(contract \<Rightarrow> 'a) \<Rightarrow> 'a exec" where
  "gets f = (\<lambda>s. (Inr (f s), s))"

definition modify :: "(contract \<Rightarrow> contract) \<Rightarrow> unit exec" where
  "modify f = (\<lambda>s. (Inr (), f s))"

definition pure :: "'a result \<Rightarrow> 'a exec" where
  "pure r = (\<lambda>s. (r, s))"

definition require :: "bool \<Rightarrow> string \<Rightarrow> unit exec" where
  "require c msg = (if c then ret () else throw (Revert msg))"

definition expect :: "'a option \<Rightarrow> string \<Rightarrow> 'a exec" where
  "expect v msg = (case v of None \<Rightarrow> throw (Panic (ExpectFailed msg)) | Some x \<Rightarrow> ret x)"

definition perform :: "effect \<Rightarrow> unit exec" where
  "perform e = modify (\<lambda>s. s\<lparr>trace := trace s @ [e]\<rparr>)"

subsection \<open>Constants\<close>

definition MINIMUM_LIQUIDITY :: nat where
  "MINIMUM_LIQUIDITY = 1000"

definition zero_address :: address where
  "zero_address = 0"

definition UNBONDING_MS :: u64 where
  "UNBONDING_MS = 14 * 60 * 60 * 1000"

subsection \<open>LP token\<close>

text \<open>
  Modelled from the spec: the CEP-18 ledger \<^verbatim>\<open>odra_modules::cep18::Cep18\<close> behind the LP
  token is a library that is not among the sources. The spec's LpShare is a total supply
  and per-holder balances; minting adds the amount to the supply and to the holder's
  balance, in \<^verbatim>\<open>U256\<close> arithmetic.
\<close>

definition cep18_mint :: "address \<Rightarrow> nat \<Rightarrow> unit exec" where
  "cep18_mint owner amount =
     bnd (gets lp_total_supply) (\<lambda>total.
     bnd (pure (u256_add total amount)) (\<lambda>total'.
     seq (modify (\<lambda>s. s\<lparr>lp_total_supply := total'\<rparr>))
     (bnd (gets (\<lambda>s. lp_balances s owner)) (\<lambda>bal.
      bnd (pure (u256_add bal amount)) (\<lambda>bal'.
      modify (\<lambda>s. s\<lparr>lp_balances := (lp_balances s)(owner := bal')\<rparr>))))))"

text \<open>
  Modelled from the spec: burning, of the same absent ledger, needs the holder's balance
  to cover the amount and subtracts it from the supply and from the balance.
\<close>

definition cep18_burn :: "address \<Rightarrow> nat \<Rightarrow> unit exec" where
  "cep18_burn owner amount =
     bnd (gets (\<lambda>s. lp_balances s owner)) (\<lambda>bal.
     seq (require (amount \<le> bal) ''InsufficientBalance'')
     (bnd (gets lp_total_supply) (\<lambda>total.
      bnd (pure (u256_sub total amount)) (\<lambda>total'.
      seq (modify (\<lambda>s. s\<lparr>lp_total_supply := total'\<rparr>))
      (bnd (pure (u256_sub bal amount)) (\<lambda>bal'.
       modify (\<lambda>s. s\<lparr>lp_balances := (lp_balances s)(owner := bal')\<rparr>)))))))"

text \<open>
  Modelled from the spec: initialising the absent ledger with an initial supply of zero
  sets the supply and the initialising caller's balance to zero (name, symbol and
  decimals are metadata and are left out).
\<close>

definition cep18_init :: "env \<Rightarrow> unit exec" where
  "cep18_init e =
     modify (\<lambda>s. s\<lparr>lp_total_supply := 0, lp_balances := (lp_balances s)(caller e := 0)\<rparr>)"

text \<open>
  \<^verbatim>\<open>LpToken\<close> is a submodule of the pool: its \<^verbatim>\<open>self.env()\<close> is the environment of the
  pool's own call, so \<^verbatim>\<open>init\<close> stores the account that initialises the pool, and
  \<^verbatim>\<open>require_pool\<close> compares that account with the caller of the running entry point.
\<close>

definition lp_init :: "env \<Rightarrow> unit exec" where
  "lp_init e =
     seq (cep18_init e)
         (modify (\<lambda>s. s\<lparr>lp_pool := Some (caller e)\<rparr>))"

definition require_pool :: "env \<Rightarrow> unit exec" where
  "require_pool e =
     bnd (gets lp_pool) (\<lambda>p.
     bnd (expect p ''Pool not set'') (\<lambda>pool.
     require (caller e = pool) ''Not pool''))"

definition lp_mint :: "env \<Rightarrow> address \<Rightarrow> nat \<Rightarrow> unit exec" where
  "lp_mint e to amount =
     seq (require_pool e)
     (bnd (pure (as_u128 amount)) (\<lambda>a. cep18_mint to a))"

definition lp_burn :: "env \<Rightarrow> address \<Rightarrow> nat \<Rightarrow> unit exec" where
  "lp_burn e from amount =
     seq (require_pool e)
     (bnd (pure (as_u128 amount)) (\<lambda>a. cep18_burn from a))"

definition total_supply :: "nat exec" where
  "total_supply = bnd (gets lp_total_supply) (\<lambda>t. pure (as_u128 t))"

definition balance_of :: "address \<Rightarrow> nat exec" where
  "balance_of owner = bnd (gets (\<lambda>s. lp_balances s owner)) (\<lambda>b. pure (as_u128 b))"

subsection \<open>Helpers and calls of the collaborators\<close>

definition transfer_token :: "address \<Rightarrow> nat \<Rightarrow> unit exec" where
  "transfer_token to amount =
     bnd (gets token_address) (\<lambda>t.
     bnd (expect t ''Token not set'') (\<lambda>token.
     bnd (pure (as_u128 amount)) (\<lambda>a.
     perform (TokenTransfer to a))))"

definition transfer_token_from :: "address \<Rightarrow> address \<Rightarrow> nat \<Rightarrow> unit exec" where
  "transfer_token_from from to amount =
     bnd (gets token_address) (\<lambda>t.
     bnd (expect t ''Token not set'') (\<lambda>token.
     bnd (pure (as_u128 amount)) (\<lambda>a.
     perform (TokenTransferFrom from to a))))"

text \<open>
  The auction's hash is a constant of the source, parsed with \<^verbatim>\<open>expect\<close>; the constant
  is taken to parse.
\<close>

definition delegate_to_validator :: "nat \<Rightarrow> unit exec" where
  "delegate_to_validator amount =
     (if amount = 0 then ret ()
      else bnd (gets validator) (\<lambda>v.
           bnd (expect v ''Validator not set'') (\<lambda>validator.
           perform (AuctionDelegate validator amount))))"

definition undelegate_from_validator :: "nat \<Rightarrow> unit exec" where
  "undelegate_from_validator amount =
     (if amount = 0 then ret ()
      else bnd (gets validator) (\<lambda>v.
           bnd (expect v ''Validator not set'') (\<lambda>validator.
           perform (AuctionUndelegate validator amount))))"

definition get_pending_rewards :: "env \<Rightarrow> nat exec" where
  "get_pending_rewards e =
     bnd (gets validator) (\<lambda>v.
     bnd (expect v ''Validator not set'') (\<lambda>validator.
     ret (pending_rewards e)))"

definition withdraw_staking_rewards :: "unit exec" where
  "withdraw_staking_rewards =
     bnd (gets validator) (\<lambda>v.
     bnd (expect v ''Validator not set'') (\<lambda>validator.
     perform (AuctionWithdrawReward validator)))"

subsection \<open>Integer square root\<close>

text \<open>The \<^verbatim>\<open>while y < x\<close> loop of \<^verbatim>\<open>sqrt\<close>; \<open>x\<close> decreases in every round.\<close>

function sqrt_loop :: "nat \<Rightarrow> nat \<Rightarrow> nat \<Rightarrow> nat result" where
  "sqrt_loop n x y =
     (if y < x then
        (case u512_div n y of
           Inl e \<Rightarrow> Inl e
         | Inr q \<Rightarrow>
            (case u512_add y q of
               Inl e \<Rightarrow> Inl e
             | Inr t \<Rightarrow>
                (case u512_div t 2 of
                   Inl e \<Rightarrow> Inl e
                 | Inr y' \<Rightarrow> sqrt_loop n y y')))
      else Inr x)"
  by pat_completeness auto
termination
  by (relation "measure (\<lambda>(n, x, y). x)") auto

definition sqrt :: "nat \<Rightarrow> nat result" where
  "sqrt n =
     (if n = 0 then Inr 0
      else (case u512_add n 1 of
              Inl e \<Rightarrow> Inl e
            | Inr t \<Rightarrow>
               (case u512_div t 2 of
                  Inl e \<Rightarrow> Inl e
                | Inr y \<Rightarrow> sqrt_loop n n y)))"

subsection \<open>Internal functions of the pool\<close>

definition get_amount_out :: "nat \<Rightarrow> nat \<Rightarrow> nat \<Rightarrow> nat exec" where
  "get_amount_out amount_in reserve_in reserve_out =
     seq (require (amount_in > 0) ''Invalid input'')
     (seq (require (reserve_in > 0 \<and> reserve_out > 0) ''No liquidity'')
     (bnd (gets swap_fee_bps) (\<lambda>fee_bps.
      bnd (pure (as_u64 fee_bps)) (\<lambda>fee.
      bnd (pure (u512_sub 10000 fee)) (\<lambda>fee_multiplier.
      bnd (pure (u512_mul amount_in fee_multiplier)) (\<lambda>scaled.
      bnd (pure (u512_div scaled 10000)) (\<lambda>amount_in_with_fee.
      bnd (pure (u512_mul amount_in_with_fee reserve_out)) (\<lambda>numerator.
      bnd (pure (u512_add reserve_in amount_in_with_fee)) (\<lambda>denominator.
      pure (u512_div numerator denominator))))))))))"

definition rebalance_stake :: "unit exec" where
  "rebalance_stake =
     bnd (gets reserve_cspr) (\<lambda>reserve.
     bnd (gets buffer_target_bps) (\<lambda>target_bps.
     bnd (pure (as_u64 target_bps)) (\<lambda>bps.
     bnd (pure (u512_mul reserve bps)) (\<lambda>scaled.
     bnd (pure (u512_div scaled 10000)) (\<lambda>target_buffer.
     bnd (gets buffer_cspr) (\<lambda>current_buffer.
     bnd (gets staked_cspr) (\<lambda>current_staked.
     if current_buffer > target_buffer then
       bnd (pure (u512_sub current_buffer target_buffer)) (\<lambda>excess.
       seq (delegate_to_validator excess)
       (seq (modify (\<lambda>s. s\<lparr>buffer_cspr := target_buffer\<rparr>))
       (bnd (pure (u512_add current_staked excess)) (\<lambda>new_staked.
        modify (\<lambda>s. s\<lparr>staked_cspr := new_staked\<rparr>)))))
     else ret ())))))))"

definition undelegate_for_withdrawal :: "nat \<Rightarrow> unit exec" where
  "undelegate_for_withdrawal amount =
     bnd (gets staked_cspr) (\<lambda>staked.
     bnd (gets buffer_cspr) (\<lambda>buffer.
     if amount \<le> buffer then
       bnd (pure (u512_sub buffer amount)) (\<lambda>new_buffer.
       modify (\<lambda>s. s\<lparr>buffer_cspr := new_buffer\<rparr>))
     else
       bnd (pure (u512_sub amount buffer)) (\<lambda>from_staked.
       seq (modify (\<lambda>s. s\<lparr>buffer_cspr := 0\<rparr>))
       (bnd (pure (u512_sub staked from_staked)) (\<lambda>new_staked.
        seq (modify (\<lambda>s. s\<lparr>staked_cspr := new_staked\<rparr>))
        (undelegate_from_validator from_staked))))))"

subsection \<open>Entry points\<close>

definition init :: "env \<Rightarrow> address \<Rightarrow> public_key \<Rightarrow> address \<Rightarrow> address \<Rightarrow> unit exec" where
  "init e token val treas adm =
     seq (modify (\<lambda>s. s\<lparr>token_address := Some token, validator := Some val,
                         treasury := Some treas, admin := Some adm\<rparr>))
     (seq (modify (\<lambda>s. s\<lparr>reserve_cspr := 0, reserve_token := 0,
                          staked_cspr := 0, buffer_cspr := 0\<rparr>))
     (seq (modify (\<lambda>s. s\<lparr>buffer_target_bps := 1000, swap_fee_bps := 30,
                          protocol_fee_bps := 1000\<rparr>))
     (seq (modify (\<lambda>s. s\<lparr>minimum_liquidity := MINIMUM_LIQUIDITY, withdrawal_counter := 0\<rparr>))
     (lp_init e))))"

definition add_liquidity :: "env \<Rightarrow> nat \<Rightarrow> nat \<Rightarrow> nat exec" where
  "add_liquidity e token_amount min_lp_tokens =
     (let cspr_amount = attached_value e in
      seq (require (cspr_amount > 0) ''Must send CSPR'')
      (seq (require (token_amount > 0) ''Must send tokens'')
      (bnd (gets reserve_cspr) (\<lambda>reserve_c.
       bnd (gets reserve_token) (\<lambda>reserve_t.
       bnd total_supply (\<lambda>total_lp.
       bnd (if total_lp = 0 then
              bnd (pure (u512_mul cspr_amount token_amount)) (\<lambda>product.
              bnd (pure (sqrt product)) (\<lambda>sqrt_product.
              bnd (gets minimum_liquidity) (\<lambda>min_liq.
              seq (require (sqrt_product > min_liq) ''Initial liquidity too low'')
              (bnd (pure (u512_sub sqrt_product min_liq)) (\<lambda>lp.
               seq (lp_mint e zero_address min_liq)
               (ret lp))))))
            else
              bnd (pure (u512_mul cspr_amount total_lp)) (\<lambda>scaled_c.
              bnd (pure (u512_div scaled_c reserve_c)) (\<lambda>lp_from_cspr.
              bnd (pure (u512_mul token_amount total_lp)) (\<lambda>scaled_t.
              bnd (pure (u512_div scaled_t reserve_t)) (\<lambda>lp_from_token.
              ret (if lp_from_cspr < lp_from_token then lp_from_cspr else lp_from_token))))))
       (\<lambda>lp_to_mint.
       seq (require (lp_to_mint \<ge> min_lp_tokens) ''Slippage too high'')
       (seq (transfer_token_from (caller e) (self_address e) token_amount)
       (bnd (pure (u512_add reserve_c cspr_amount)) (\<lambda>new_reserve_cspr.
        bnd (pure (u512_add reserve_t token_amount)) (\<lambda>new_reserve_token.
        seq (modify (\<lambda>s. s\<lparr>reserve_cspr := new_reserve_cspr\<rparr>))
        (seq (modify (\<lambda>s. s\<lparr>reserve_token := new_reserve_token\<rparr>))
        (bnd (gets buffer_cspr) (\<lambda>buffer.
         bnd (pure (u512_add buffer cspr_amount)) (\<lambda>new_buffer.
         seq (modify (\<lambda>s. s\<lparr>buffer_cspr := new_buffer\<rparr>))
         (seq rebalance_stake
         (seq (lp_mint e (caller e) lp_to_mint)
         (seq (perform (Emit (LiquidityAdded (caller e) cspr_amount token_amount lp_to_mint)))
         (ret lp_to_mint)))))))))))))))))))"

definition remove_liquidity :: "env \<Rightarrow> nat \<Rightarrow> nat \<Rightarrow> nat \<Rightarrow> u64 exec" where
  "remove_liquidity e lp_amount min_cspr min_token =
     bnd (balance_of (caller e)) (\<lambda>lp_balance.
     seq (require (lp_amount \<le> lp_balance) ''Insufficient LP balance'')
     (seq (require (lp_amount > 0) ''Amount must be > 0'')
     (bnd total_supply (\<lambda>total_lp.
      bnd (gets reserve_cspr) (\<lambda>reserve_c.
      bnd (gets reserve_token) (\<lambda>reserve_t.
      bnd (pure (u512_mul lp_amount reserve_c)) (\<lambda>scaled_c.
      bnd (pure (u512_div scaled_c total_lp)) (\<lambda>cspr_amount.
      bnd (pure (u512_mul lp_amount reserve_t)) (\<lambda>scaled_t.
      bnd (pure (u512_div scaled_t total_lp)) (\<lambda>token_amount.
      seq (require (cspr_amount \<ge> min_cspr) ''CSPR slippage'')
      (seq (require (token_amount \<ge> min_token) ''Token slippage'')
      (seq (lp_burn e (caller e) lp_amount)
      (bnd (pure (u512_sub reserve_c cspr_amount)) (\<lambda>new_reserve_cspr.
       seq (modify (\<lambda>s. s\<lparr>reserve_cspr := new_reserve_cspr\<rparr>))
       (bnd (pure (u512_sub reserve_t token_amount)) (\<lambda>new_reserve_token.
        seq (modify (\<lambda>s. s\<lparr>reserve_token := new_reserve_token\<rparr>))
        (seq (transfer_token (caller e) token_amount)
        (seq (undelegate_for_withdrawal cspr_amount)
        (bnd (gets withdrawal_counter) (\<lambda>withdrawal_id.
         seq (modify (\<lambda>s. s\<lparr>withdrawal_counter := withdrawal_id + 1\<rparr>))
         (let now = block_time e;
              claimable = now + UNBONDING_MS;
              request = \<lparr>w_id = withdrawal_id, w_user = caller e, w_lp_burned = lp_amount,
                         w_cspr_amount = cspr_amount, w_token_amount = token_amount,
                         w_request_time = now, w_claimable_time = claimable,
                         w_claimed = False\<rparr>
          in seq (modify (\<lambda>s. s\<lparr>withdrawals := (withdrawals s)(withdrawal_id \<mapsto> request)\<rparr>))
             (bnd (gets (\<lambda>s. user_withdrawals s (caller e))) (\<lambda>user_ids.
              seq (modify (\<lambda>s. s\<lparr>user_withdrawals :=
                                     (user_withdrawals s)(caller e := user_ids @ [withdrawal_id])\<rparr>))
              (seq (perform (Emit (LiquidityRemoved (caller e) lp_amount cspr_amount
                                     token_amount withdrawal_id)))
              (ret withdrawal_id)))))))))))))))))))))))))"

definition claim_withdrawal :: "env \<Rightarrow> u64 \<Rightarrow> nat exec" where
  "claim_withdrawal e withdrawal_id =
     bnd (gets (\<lambda>s. withdrawals s withdrawal_id)) (\<lambda>found.
     bnd (expect found ''Withdrawal not found'') (\<lambda>request.
     seq (require (w_user request = caller e) ''Not your withdrawal'')
     (seq (require (\<not> w_claimed request) ''Already claimed'')
     (seq (require (block_time e \<ge> w_claimable_time request) ''Still unbonding'')
     (let request' = request\<lparr>w_claimed := True\<rparr> in
      seq (modify (\<lambda>s. s\<lparr>withdrawals := (withdrawals s)(withdrawal_id \<mapsto> request')\<rparr>))
      (seq (perform (TransferTokens (caller e) (w_cspr_amount request')))
      (seq (perform (Emit (WithdrawalClaimed (caller e) withdrawal_id (w_cspr_amount request'))))
      (ret (w_cspr_amount request')))))))))"

definition swap_cspr_for_token :: "env \<Rightarrow> nat \<Rightarrow> nat exec" where
  "swap_cspr_for_token e min_token_out =
     (let cspr_in = attached_value e in
      seq (require (cspr_in > 0) ''Must send CSPR'')
      (bnd (gets reserve_cspr) (\<lambda>reserve_c.
       bnd (gets reserve_token) (\<lambda>reserve_t.
       bnd (get_amount_out cspr_in reserve_c reserve_t) (\<lambda>token_out.
       seq (require (token_out \<ge> min_token_out) ''Slippage exceeded'')
       (seq (require (token_out < reserve_t) ''Insufficient liquidity'')
       (bnd (pure (u512_add reserve_c cspr_in)) (\<lambda>new_reserve_cspr.
        seq (modify (\<lambda>s. s\<lparr>reserve_cspr := new_reserve_cspr\<rparr>))
        (bnd (pure (u512_sub reserve_t token_out)) (\<lambda>new_reserve_token.
         seq (modify (\<lambda>s. s\<lparr>reserve_token := new_reserve_token\<rparr>))
         (bnd (gets buffer_cspr) (\<lambda>buffer.
          bnd (pure (u512_add buffer cspr_in)) (\<lambda>new_buffer.
          seq (modify (\<lambda>s. s\<lparr>buffer_cspr := new_buffer\<rparr>))
          (seq rebalance_stake
          (seq (transfer_token (caller e) token_out)
          (seq (perform (Emit (Swap (caller e) cspr_in 0 0 token_out)))
          (ret token_out)))))))))))))))))"

definition swap_token_for_cspr :: "env \<Rightarrow> nat \<Rightarrow> nat \<Rightarrow> nat exec" where
  "swap_token_for_cspr e token_in min_cspr_out =
     seq (require (token_in > 0) ''Must send tokens'')
     (bnd (gets reserve_cspr) (\<lambda>reserve_c.
      bnd (gets reserve_token) (\<lambda>reserve_t.
      bnd (get_amount_out token_in reserve_t reserve_c) (\<lambda>cspr_out.
      seq (require (cspr_out \<ge> min_cspr_out) ''Slippage exceeded'')
      (bnd (gets buffer_cspr) (\<lambda>buffer.
       seq (require (cspr_out \<le> buffer) ''Insufficient buffer - try smaller amount'')
       (seq (transfer_token_from (caller e) (self_address e) token_in)
       (bnd (pure (u512_sub reserve_c cspr_out)) (\<lambda>new_reserve_cspr.
        seq (modify (\<lambda>s. s\<lparr>reserve_cspr := new_reserve_cspr\<rparr>))
        (bnd (pure (u512_add reserve_t token_in)) (\<lambda>new_reserve_token.
         seq (modify (\<lambda>s. s\<lparr>reserve_token := new_reserve_token\<rparr>))
         (bnd (pure (u512_sub buffer cspr_out)) (\<lambda>new_buffer.
          seq (modify (\<lambda>s. s\<lparr>buffer_cspr := new_buffer\<rparr>))
          (seq (perform (TransferTokens (caller e) cspr_out))
          (seq (perform (Emit (Swap (caller e) 0 cspr_out token_in 0)))
          (ret cspr_out))))))))))))))))"

definition compound :: "env \<Rightarrow> nat exec" where
  "compound e =
     bnd (get_pending_rewards e) (\<lambda>rewards.
     if rewards = 0 then ret 0
     else
       seq withdraw_staking_rewards
       (bnd (gets protocol_fee_bps) (\<lambda>fee_bps.
        bnd (pure (as_u64 fee_bps)) (\<lambda>fee.
        bnd (pure (u512_mul rewards fee)) (\<lambda>scaled.
        bnd (pure (u512_div scaled 10000)) (\<lambda>protocol_fee.
        bnd (pure (u512_sub rewards protocol_fee)) (\<lambda>rewards_to_pool.
        seq (if protocol_fee > 0 then
               bnd (gets treasury) (\<lambda>t.
               bnd (expect t ''Treasury not set'') (\<lambda>treasury_address.
               perform (TransferTokens treasury_address protocol_fee)))
             else ret ())
        (bnd (gets reserve_cspr) (\<lambda>reserve.
         bnd (pure (u512_add reserve rewards_to_pool)) (\<lambda>new_reserve.
         seq (modify (\<lambda>s. s\<lparr>reserve_cspr := new_reserve\<rparr>))
         (bnd (gets buffer_cspr) (\<lambda>buffer.
          bnd (pure (u512_add buffer rewards_to_pool)) (\<lambda>new_buffer.
          seq (modify (\<lambda>s. s\<lparr>buffer_cspr := new_buffer\<rparr>))
          (seq rebalance_stake
          (seq (perform (Emit (Compounded rewards protocol_fee rewards_to_pool)))
          (ret rewards_to_pool))))))))))))))))"

text \<open>The six public operations behind one dispatcher.\<close>

datatype call =
    AddLiquidity nat nat
  | RemoveLiquidity nat nat nat
  | ClaimWithdrawal u64
  | SwapCsprForToken nat
  | SwapTokenForCspr nat nat
  | Compound

datatype retval = RetU512 nat | RetU64 u64

definition run :: "env \<Rightarrow> call \<Rightarrow> retval exec" where
  "run e c =
     (case c of
        AddLiquidity token_amount min_lp_tokens \<Rightarrow>
          bnd (add_liquidity e token_amount min_lp_tokens) (\<lambda>v. ret (RetU512 v))
      | RemoveLiquidity lp_amount min_cspr min_token \<Rightarrow>
          bnd (remove_liquidity e lp_amount min_cspr min_token) (\<lambda>v. ret (RetU64 v))
      | ClaimWithdrawal withdrawal_id \<Rightarrow>
          bnd (claim_withdrawal e withdrawal_id) (\<lambda>v. ret (RetU512 v))
      | SwapCsprForToken min_token_out \<Rightarrow>
          bnd (swap_cspr_for_token e min_token_out) (\<lambda>v. ret (RetU512 v))
      | SwapTokenForCspr token_in min_cspr_out \<Rightarrow>
          bnd (swap_token_for_cspr e token_in min_cspr_out) (\<lambda>v. ret (RetU512 v))
      | Compound \<Rightarrow>
          bnd (compound e) (\<lambda>v. ret (RetU512 v)))"

subsection \<open>The front end's quote\<close>

text \<open>
  \<^verbatim>\<open>getAmountOut\<close> of the pool hook works on \<^verbatim>\<open>bigint\<close>: unbounded integers whose
  division truncates towards zero and throws a \<^verbatim>\<open>RangeError\<close> on a zero divisor
  (\<open>None\<close> here).
\<close>

definition bigint_div :: "int \<Rightarrow> int \<Rightarrow> int option" where
  "bigint_div a b = (if b = 0 then None else Some (sgn a * sgn b * (\<bar>a\<bar> div \<bar>b\<bar>)))"

definition getAmountOut :: "int \<Rightarrow> int \<Rightarrow> int \<Rightarrow> int option" where
  "getAmountOut amountIn reserveIn reserveOut =
     (if amountIn = 0 \<or> reserveIn = 0 \<or> reserveOut = 0 then Some 0
      else
        (let feeMultiplier = 10000 - 30 in
         case bigint_div (amountIn * feeMultiplier) 10000 of
           None \<Rightarrow> None
         | Some amountInWithFee \<Rightarrow>
             (let numerator = amountInWithFee * reserveOut;
                  denominator = reserveIn + amountInWithFee
              in bigint_div numerator denominator)))"

subsection \<open>The quote as the specification words it\<close>

text \<open>
  The specification's \<^verbatim>\<open>quoteOut\<close>: \<^verbatim>\<open>amountInWithFee = amountIn * (10000 - swapFeeBps) / 10000\<close>
  and \<^verbatim>\<open>amountOut = amountInWithFee * reserveOut / (reserveIn + amountInWithFee)\<close>, in
  floor arithmetic. It is compared with \<open>get_amount_out\<close> and \<open>getAmountOut\<close> below.
\<close>

definition quoteOut :: "nat \<Rightarrow> nat \<Rightarrow> nat \<Rightarrow> nat \<Rightarrow> nat" where
  "quoteOut swapFeeBps amountIn reserveIn reserveOut =
     (let amountInWithFee = amountIn * (10000 - swapFeeBps) div 10000
      in amountInWithFee * reserveOut div (reserveIn + amountInWithFee))"

subsection \<open>Predicates and sample data\<close>

text \<open>The partition of the base reserve: staked plus buffer is the reserve.\<close>

definition pool_inv :: "contract \<Rightarrow> bool" where
  "pool_inv s = (staked_cspr s + buffer_cspr s = reserve_cspr s)"

text \<open>
  A pool after its first deposit of \<open>10^9\<close> of each asset by account 1, with the buffer at
  its 10 percent target, and an environment in which account 1 attaches \<open>10^8\<close> motes.
\<close>

definition demo_pool :: contract where
  "demo_pool = \<lparr>token_address = Some 5, lp_total_supply = 1000000000,
     lp_balances = (\<lambda>a. if a = 0 then 1000 else if a = 1 then 999999000 else 0),
     lp_pool = Some 1, reserve_cspr = 1000000000, reserve_token = 1000000000,
     staked_cspr = 900000000, buffer_cspr = 100000000, validator = Some 7,
     buffer_target_bps = 1000, swap_fee_bps = 30, protocol_fee_bps = 1000,
     treasury = Some 9, withdrawal_counter = 0, withdrawals = Map.empty,
     user_withdrawals = (\<lambda>_. []), admin = Some 1, minimum_liquidity = 1000, trace = []\<rparr>"

definition demo_env :: env where
  "demo_env = \<lparr>caller = 1, attached_value = 100000000, block_time = 0, self_address = 3,
     pending_rewards = 0\<rparr>"

text \<open>Further sample data: the storage before \<open>init\<close>, a freshly initialised pool, a pool
  with a queued withdrawal, and an over-buffered pool; and two names used in the claims.\<close>

definition unset_contract :: contract where
  "unset_contract = \<lparr>token_address = None, lp_total_supply = 0, lp_balances = (\<lambda>_. 0),
     lp_pool = None, reserve_cspr = 0, reserve_token = 0, staked_cspr = 0, buffer_cspr = 0,
     validator = None, buffer_target_bps = 0, swap_fee_bps = 0, protocol_fee_bps = 0,
     treasury = None, withdrawal_counter = 0, withdrawals = Map.empty,
     user_withdrawals = (\<lambda>_. []), admin = None, minimum_liquidity = 0, trace = []\<rparr>"

definition first_env :: env where
  "first_env = \<lparr>caller = 1, attached_value = 1000000000, block_time = 0, self_address = 3,
     pending_rewards = 0\<rparr>"

definition fresh_pool :: contract where
  "fresh_pool = snd (init first_env 5 7 9 1 unset_contract)"

definition target_buffer :: "contract \<Rightarrow> nat" where
  "target_buffer s = reserve_cspr s * buffer_target_bps s div 10000"

definition over_buffered_pool :: contract where
  "over_buffered_pool = demo_pool\<lparr>reserve_cspr := 1100000000, buffer_cspr := 200000000\<rparr>"

definition demo_request :: withdrawal_request where
  "demo_request = \<lparr>w_id = 0, w_user = 1, w_lp_burned = 1000, w_cspr_amount = 1000,
     w_token_amount = 1000, w_request_time = 0, w_claimable_time = 50400000,
     w_claimed = False\<rparr>"

definition demo_queue_pool :: contract where
  "demo_queue_pool = demo_pool\<lparr>withdrawal_counter := 1,
     withdrawals := [0 \<mapsto> demo_request], user_withdrawals := (\<lambda>_. [])(1 := [0])\<rparr>"

definition owner_env :: "u64 \<Rightarrow> env" where
  "owner_env t = \<lparr>caller = 1, attached_value = 0, block_time = t, self_address = 3,
     pending_rewards = 0\<rparr>"

definition stranger_env :: "u64 \<Rightarrow> env" where
  "stranger_env t = \<lparr>caller = 2, attached_value = 0, block_time = t, self_address = 3,
     pending_rewards = 0\<rparr>"

definition demo_claimed_pool :: contract where
  "demo_claimed_pool = demo_queue_pool\<lparr>
     withdrawals := [0 \<mapsto> demo_request\<lparr>w_claimed := True\<rparr>],
     trace := [TransferTokens 1 1000, Emit (WithdrawalClaimed 1 0 1000)]\<rparr>"

definition insufficient_buffer :: error where
  "insufficient_buffer = Revert ''Insufficient buffer - try smaller amount''"

definition imbalanced_env :: env where
  "imbalanced_env = \<lparr>caller = 1, attached_value = 200000000, block_time = 0, self_address = 3,
     pending_rewards = 0\<rparr>"

definition after_first_deposit :: contract where
  "after_first_deposit = snd (add_liquidity first_env 1000000000 0 fresh_pool)"

definition after_imbalanced_deposit :: contract where
  "after_imbalanced_deposit = snd (add_liquidity imbalanced_env 100000000 0 demo_pool)"

definition after_balanced_deposit :: contract where
  "after_balanced_deposit = snd (add_liquidity demo_env 100000000 0 demo_pool)"

section \<open>Basic facts\<close>

lemmas exec_defs = bnd_def seq_def gets_def modify_def pure_def ret_def throw_def
  require_def expect_def perform_def

lemmas arith_defs = u512_add_def u512_sub_def u512_mul_def u512_div_def u256_add_def
  u256_sub_def as_u64_def as_u128_def

lemmas limit_defs = U512_LIMIT_def U256_LIMIT_def U128_LIMIT_def U64_LIMIT_def

subsection \<open>When a step returns, and when it fails\<close>

lemma bnd_Inr:
  "(bnd m f s = (Inr y, s')) = (\<exists>x s1. m s = (Inr x, s1) \<and> f x s1 = (Inr y, s'))"
  by (auto simp: bnd_def split: prod.splits sum.splits)

lemma seq_Inr:
  "(seq m n s = (Inr y, s')) = (\<exists>s1. m s = (Inr (), s1) \<and> n s1 = (Inr y, s'))"
  by (simp add: seq_def bnd_Inr)

lemma bnd_Inl:
  "(bnd m f s = (Inl e, s')) =
     (m s = (Inl e, s') \<or> (\<exists>x s1. m s = (Inr x, s1) \<and> f x s1 = (Inl e, s')))"
  by (auto simp: bnd_def split: prod.splits sum.splits)

lemma seq_Inl:
  "(seq m n s = (Inl e, s')) =
     (m s = (Inl e, s') \<or> (\<exists>s1. m s = (Inr (), s1) \<and> n s1 = (Inl e, s')))"
  by (simp add: seq_def bnd_Inl)

lemma pure_eq: "(pure r s = (r', s')) = (r = r' \<and> s' = s)"
  by (auto simp: pure_def)

lemma gets_eq: "(gets f s = (r, s')) = (r = Inr (f s) \<and> s' = s)"
  by (auto simp: gets_def)

lemma modify_eq: "(modify f s = (r, s')) = (r = Inr () \<and> s' = f s)"
  by (auto simp: modify_def)

lemma ret_eq: "(ret x s = (r, s')) = (r = Inr x \<and> s' = s)"
  by (auto simp: ret_def)

lemma require_Inr: "(require c msg s = (Inr u, s')) = (c \<and> s' = s)"
  by (auto simp: require_def ret_def throw_def)

lemma require_Inl: "(require c msg s = (Inl e, s')) = (\<not> c \<and> e = Revert msg \<and> s' = s)"
  by (auto simp: require_def ret_def throw_def)

lemma expect_Inr: "(expect v msg s = (Inr x, s')) = (v = Some x \<and> s' = s)"
  by (auto simp: expect_def ret_def throw_def split: option.splits)

lemma expect_Inl:
  "(expect v msg s = (Inl e, s')) = (v = None \<and> e = Panic (ExpectFailed msg) \<and> s' = s)"
  by (auto simp: expect_def ret_def throw_def split: option.splits)

lemma perform_eq:
  "(perform x s = (r, s')) = (r = Inr () \<and> s' = s\<lparr>trace := trace s @ [x]\<rparr>)"
  by (auto simp: perform_def modify_def)

lemmas Inr_simps = bnd_Inr seq_Inr pure_eq gets_eq modify_eq ret_eq require_Inr expect_Inr
  perform_eq

lemmas Inl_simps = bnd_Inl seq_Inl pure_eq gets_eq modify_eq ret_eq require_Inl expect_Inl
  perform_eq

lemma u512_add_Inr: "(u512_add a b = Inr c) = (a + b < U512_LIMIT \<and> c = a + b)"
  by (auto simp: u512_add_def)

lemma u512_sub_Inr: "(u512_sub a b = Inr c) = (b \<le> a \<and> c = a - b)"
  by (auto simp: u512_sub_def)

lemma u512_mul_Inr: "(u512_mul a b = Inr c) = (a * b < U512_LIMIT \<and> c = a * b)"
  by (auto simp: u512_mul_def)

lemma u512_div_Inr: "(u512_div a b = Inr c) = (b \<noteq> 0 \<and> c = a div b)"
  by (auto simp: u512_div_def)

lemma u256_add_Inr: "(u256_add a b = Inr c) = (a + b < U256_LIMIT \<and> c = a + b)"
  by (auto simp: u256_add_def)

lemma u256_sub_Inr: "(u256_sub a b = Inr c) = (b \<le> a \<and> c = a - b)"
  by (auto simp: u256_sub_def)

lemma as_u64_Inr: "(as_u64 x = Inr c) = (x < U64_LIMIT \<and> c = x)"
  by (auto simp: as_u64_def)

lemma as_u128_Inr: "(as_u128 x = Inr c) = (x < U128_LIMIT \<and> c = x)"
  by (auto simp: as_u128_def)

lemmas arith_Inr = u512_add_Inr u512_sub_Inr u512_mul_Inr u512_div_Inr u256_add_Inr
  u256_sub_Inr as_u64_Inr as_u128_Inr

subsection \<open>Arithmetic of the constant-product quote\<close>

lemma quot_mult_le: "(f::nat) * rout div (rin + f) * (rin + f) \<le> f * rout"
  by simp

lemma quot_le_rout: "(f::nat) * rout div (rin + f) \<le> rout"
proof (cases "rin + f = 0")
  case True
  then show ?thesis by simp
next
  case False
  have "f * rout \<le> rout * (rin + f)" by (simp add: algebra_simps)
  then have "f * rout div (rin + f) \<le> rout * (rin + f) div (rin + f)"
    by (rule div_le_mono)
  with False show ?thesis by simp
qed

lemma quot_lt_rout: "0 < (rin::nat) \<Longrightarrow> 0 < rout \<Longrightarrow> f * rout div (rin + f) < rout"
  by (simp add: less_mult_imp_div_less)

lemma quot_mono:
  assumes "(f1::nat) \<le> f2"
  shows "f1 * rout div (rin + f1) \<le> f2 * rout div (rin + f2)"
proof (cases "rin + f2 = 0")
  case True
  with assms show ?thesis by simp
next
  case False
  define q where "q = f1 * rout div (rin + f1)"
  have q1: "q * (rin + f1) \<le> f1 * rout" unfolding q_def by (rule quot_mult_le)
  have q2: "q \<le> rout" unfolding q_def by (rule quot_le_rout)
  obtain d where d: "f2 = f1 + d" using assms by (auto simp: le_iff_add)
  have "q * (rin + f2) = q * (rin + f1) + q * d" by (simp add: d algebra_simps)
  also have "\<dots> \<le> f1 * rout + rout * d" using q1 q2 by (simp add: add_mono)
  also have "\<dots> = f2 * rout" by (simp add: d algebra_simps)
  finally have "q * (rin + f2) \<le> f2 * rout" .
  with False have "q \<le> f2 * rout div (rin + f2)"
    by (simp add: less_eq_div_iff_mult_less_eq)
  then show ?thesis by (simp add: q_def)
qed

lemma product_grows:
  assumes "(f::nat) \<le> a"
  shows "rin * rout \<le> (rin + a) * (rout - f * rout div (rin + f))"
proof -
  define q where "q = f * rout div (rin + f)"
  have q1: "q * (rin + f) \<le> f * rout" unfolding q_def by (rule quot_mult_le)
  have q2: "q \<le> rout" unfolding q_def by (rule quot_le_rout)
  have "rin * rout + f * rout = (rin + f) * rout" by (simp add: algebra_simps)
  also have "\<dots> = (rin + f) * (rout - q) + (rin + f) * q"
    using q2 by (simp add: algebra_simps flip: distrib_left)
  also have "\<dots> \<le> (rin + f) * (rout - q) + f * rout"
    using q1 by (simp add: mult.commute)
  finally have "rin * rout \<le> (rin + f) * (rout - q)" by simp
  also have "\<dots> \<le> (rin + a) * (rout - q)" using assms by (simp add: mult_le_mono1)
  finally show ?thesis by (simp add: q_def)
qed

lemma fee_le: "(a::nat) * (10000 - fee) div 10000 \<le> a"
proof -
  have "a * (10000 - fee) \<le> a * 10000" by simp
  then have "a * (10000 - fee) div 10000 \<le> a * 10000 div 10000" by (rule div_le_mono)
  then show ?thesis by simp
qed

lemma fee_mono:
  "(a1::nat) \<le> a2 \<Longrightarrow> a1 * (10000 - fee) div 10000 \<le> a2 * (10000 - fee) div 10000"
  by (simp add: div_le_mono)

lemma quoteOut_lt: "0 < rin \<Longrightarrow> 0 < rout \<Longrightarrow> quoteOut fee a rin rout < rout"
  by (simp add: quoteOut_def Let_def quot_lt_rout)

lemma quoteOut_mono: "a1 \<le> a2 \<Longrightarrow> quoteOut fee a1 rin rout \<le> quoteOut fee a2 rin rout"
  by (simp add: quoteOut_def Let_def quot_mono fee_mono)

lemma quoteOut_product: "rin * rout \<le> (rin + a) * (rout - quoteOut fee a rin rout)"
  unfolding quoteOut_def Let_def by (rule product_grows) (rule fee_le)

subsection \<open>What each function leaves behind when it returns\<close>

lemma get_amount_out_Inr:
  "get_amount_out a rin rout s = (Inr out, s') \<Longrightarrow>
     s' = s \<and> 0 < a \<and> 0 < rin \<and> 0 < rout \<and> swap_fee_bps s \<le> 10000 \<and>
     out = quoteOut (swap_fee_bps s) a rin rout"
  by (auto simp add: get_amount_out_def quoteOut_def Let_def Inr_simps arith_Inr)

lemma rebalance_stake_sum:
  "rebalance_stake s = (Inr u, s') \<Longrightarrow>
     reserve_cspr s' = reserve_cspr s \<and> reserve_token s' = reserve_token s \<and>
     lp_total_supply s' = lp_total_supply s \<and> lp_balances s' = lp_balances s \<and>
     lp_pool s' = lp_pool s \<and> withdrawals s' = withdrawals s \<and>
     withdrawal_counter s' = withdrawal_counter s \<and> token_address s' = token_address s \<and>
     staked_cspr s' + buffer_cspr s' = staked_cspr s + buffer_cspr s"
  by (auto simp add: rebalance_stake_def delegate_to_validator_def Inr_simps arith_Inr
      split: if_splits)

lemma lp_mint_Inr:
  "lp_mint e to a s = (Inr u, s') \<Longrightarrow>
     lp_pool s = Some (caller e) \<and> a < U128_LIMIT \<and>
     s' = s\<lparr>lp_total_supply := lp_total_supply s + a,
              lp_balances := (lp_balances s)(to := lp_balances s to + a)\<rparr>"
  by (auto simp add: lp_mint_def require_pool_def cep18_mint_def Inr_simps arith_Inr)

lemma lp_burn_Inr:
  "lp_burn e from a s = (Inr u, s') \<Longrightarrow>
     lp_pool s = Some (caller e) \<and> a < U128_LIMIT \<and> a \<le> lp_balances s from \<and>
     a \<le> lp_total_supply s \<and>
     s' = s\<lparr>lp_total_supply := lp_total_supply s - a,
              lp_balances := (lp_balances s)(from := lp_balances s from - a)\<rparr>"
  by (auto simp add: lp_burn_def require_pool_def cep18_burn_def Inr_simps arith_Inr)

lemma total_supply_iff:
  "(total_supply s = (Inr t, s')) =
     (s' = s \<and> t = lp_total_supply s \<and> lp_total_supply s < U128_LIMIT)"
  by (auto simp add: total_supply_def Inr_simps arith_Inr)

lemma balance_of_iff:
  "(balance_of a s = (Inr b, s')) =
     (s' = s \<and> b = lp_balances s a \<and> lp_balances s a < U128_LIMIT)"
  by (auto simp add: balance_of_def Inr_simps arith_Inr)

lemma transfer_token_Inr:
  "transfer_token to a s = (Inr u, s') \<Longrightarrow>
     token_address s \<noteq> None \<and> a < U128_LIMIT \<and>
     s' = s\<lparr>trace := trace s @ [TokenTransfer to a]\<rparr>"
  by (auto simp add: transfer_token_def Inr_simps arith_Inr)

lemma transfer_token_from_Inr:
  "transfer_token_from from to a s = (Inr u, s') \<Longrightarrow>
     token_address s \<noteq> None \<and> a < U128_LIMIT \<and>
     s' = s\<lparr>trace := trace s @ [TokenTransferFrom from to a]\<rparr>"
  by (auto simp add: transfer_token_from_def Inr_simps arith_Inr)

lemma transfer_token_from_Inl:
  "transfer_token_from from to a s = (Inl err, s') \<Longrightarrow>
     s' = s \<and> (err = Panic (ExpectFailed ''Token not set'') \<or> err = Panic CastOverflow)"
  by (auto simp add: transfer_token_from_def Inl_simps Inr_simps arith_defs split: if_splits)

lemma undelegate_for_withdrawal_Inr:
  "undelegate_for_withdrawal amount s = (Inr u, s') \<Longrightarrow>
     amount \<le> staked_cspr s + buffer_cspr s \<and>
     staked_cspr s' + buffer_cspr s' + amount = staked_cspr s + buffer_cspr s \<and>
     buffer_cspr s' = buffer_cspr s - amount \<and>
     reserve_cspr s' = reserve_cspr s \<and> reserve_token s' = reserve_token s \<and>
     lp_total_supply s' = lp_total_supply s \<and> lp_balances s' = lp_balances s \<and>
     lp_pool s' = lp_pool s \<and> withdrawals s' = withdrawals s \<and>
     withdrawal_counter s' = withdrawal_counter s \<and> token_address s' = token_address s"
  by (auto simp add: undelegate_for_withdrawal_def undelegate_from_validator_def Inr_simps
      arith_Inr split: if_splits)

lemma fee_block_Inr:
  "(if c then bnd (gets treasury) (\<lambda>t. bnd (expect t msg) (\<lambda>a. perform (g a)))
    else ret ()) s = (Inr u, s') \<Longrightarrow>
   reserve_cspr s' = reserve_cspr s \<and> staked_cspr s' = staked_cspr s \<and>
   buffer_cspr s' = buffer_cspr s \<and> reserve_token s' = reserve_token s"
  by (auto simp: Inr_simps split: if_splits)

lemma swap_cspr_for_token_Inr:
  "swap_cspr_for_token e m s = (Inr out, s') \<Longrightarrow>
     0 < attached_value e \<and> 0 < reserve_cspr s \<and> 0 < reserve_token s \<and>
     swap_fee_bps s \<le> 10000 \<and>
     out = quoteOut (swap_fee_bps s) (attached_value e) (reserve_cspr s) (reserve_token s) \<and>
     m \<le> out \<and> out < reserve_token s \<and>
     reserve_cspr s' = reserve_cspr s + attached_value e \<and>
     reserve_token s' = reserve_token s - out \<and>
     staked_cspr s' + buffer_cspr s' = staked_cspr s + buffer_cspr s + attached_value e"
  apply (clarsimp simp add: swap_cspr_for_token_def Inr_simps Let_def arith_Inr)
  apply (drule get_amount_out_Inr)
  apply (drule rebalance_stake_sum)
  apply (drule transfer_token_Inr)
  apply clarsimp
  done

lemma swap_token_for_cspr_Inr:
  "swap_token_for_cspr e token_in m s = (Inr out, s') \<Longrightarrow>
     0 < token_in \<and> 0 < reserve_cspr s \<and> 0 < reserve_token s \<and>
     swap_fee_bps s \<le> 10000 \<and>
     out = quoteOut (swap_fee_bps s) token_in (reserve_token s) (reserve_cspr s) \<and>
     m \<le> out \<and> out \<le> buffer_cspr s \<and>
     reserve_cspr s' = reserve_cspr s - out \<and>
     reserve_token s' = reserve_token s + token_in \<and>
     buffer_cspr s' = buffer_cspr s - out \<and> staked_cspr s' = staked_cspr s"
  apply (clarsimp simp add: swap_token_for_cspr_def Inr_simps arith_Inr)
  apply (drule get_amount_out_Inr)
  apply (drule transfer_token_from_Inr)
  apply clarsimp
  done

subsection \<open>How the internal functions fail\<close>

lemma get_amount_out_Inl:
  "get_amount_out a rin rout s = (Inl err, s') \<Longrightarrow>
     s' = s \<and>
     (err = Revert ''Invalid input'' \<or> err = Revert ''No liquidity'' \<or> (\<exists>p. err = Panic p))"
  by (auto simp add: get_amount_out_def Inl_simps Inr_simps arith_defs split: if_splits)

lemma rebalance_stake_Inl: "rebalance_stake s = (Inl err, s') \<Longrightarrow> \<exists>p. err = Panic p"
  by (auto simp add: rebalance_stake_def delegate_to_validator_def Inl_simps Inr_simps
      arith_defs split: if_splits)

lemma transfer_token_Inl: "transfer_token to a s = (Inl err, s') \<Longrightarrow> \<exists>p. err = Panic p"
  by (auto simp add: transfer_token_def Inl_simps Inr_simps arith_defs split: if_splits)

subsection \<open>The partition survives every operation\<close>

lemma swap_token_for_cspr_inv:
  "pool_inv s \<Longrightarrow> swap_token_for_cspr e token_in m s = (Inr v, s') \<Longrightarrow> pool_inv s'"
  apply (clarsimp simp add: swap_token_for_cspr_def Inr_simps arith_Inr)
  apply (drule get_amount_out_Inr)
  apply (drule transfer_token_from_Inr)
  apply (clarsimp simp: pool_inv_def)
  done

lemma swap_cspr_for_token_inv:
  "pool_inv s \<Longrightarrow> swap_cspr_for_token e m s = (Inr v, s') \<Longrightarrow> pool_inv s'"
  apply (clarsimp simp add: swap_cspr_for_token_def Inr_simps Let_def arith_Inr)
  apply (drule get_amount_out_Inr)
  apply (drule rebalance_stake_sum)
  apply (drule transfer_token_Inr)
  apply (clarsimp simp: pool_inv_def)
  done

lemma compound_inv:
  "pool_inv s \<Longrightarrow> compound e s = (Inr v, s') \<Longrightarrow> pool_inv s'"
  apply (cases "pending_rewards e = 0")
   apply (clarsimp simp add: compound_def get_pending_rewards_def Inr_simps)
  apply (clarsimp simp add: compound_def get_pending_rewards_def withdraw_staking_rewards_def
      Inr_simps arith_Inr)
  apply (drule fee_block_Inr)
  apply (drule rebalance_stake_sum)
  apply (clarsimp simp: pool_inv_def)
  apply linarith
  done

lemma claim_withdrawal_inv:
  "pool_inv s \<Longrightarrow> claim_withdrawal e i s = (Inr v, s') \<Longrightarrow> pool_inv s'"
  by (clarsimp simp add: claim_withdrawal_def Inr_simps Let_def pool_inv_def)

lemma add_liquidity_inv:
  "pool_inv s \<Longrightarrow> add_liquidity e token_amount m s = (Inr v, s') \<Longrightarrow> pool_inv s'"
  apply (cases "lp_total_supply s = 0")
   apply (clarsimp simp add: add_liquidity_def Inr_simps Let_def total_supply_iff arith_Inr)
   apply (drule lp_mint_Inr)
   apply (drule transfer_token_from_Inr)
   apply (drule rebalance_stake_sum)
   apply (drule lp_mint_Inr)
   apply (clarsimp simp: pool_inv_def)
  apply (clarsimp simp add: add_liquidity_def Inr_simps Let_def total_supply_iff arith_Inr)
  apply (drule transfer_token_from_Inr)
  apply (drule rebalance_stake_sum)
  apply (drule lp_mint_Inr)
  apply (clarsimp simp: pool_inv_def)
  done

lemma remove_liquidity_inv:
  "pool_inv s \<Longrightarrow> remove_liquidity e lp_amount mc mt s = (Inr v, s') \<Longrightarrow> pool_inv s'"
  apply (clarsimp simp add: remove_liquidity_def Inr_simps Let_def arith_Inr total_supply_iff
      balance_of_iff)
  apply (drule lp_burn_Inr)
  apply (drule transfer_token_Inr)
  apply (drule undelegate_for_withdrawal_Inr)
  apply (clarsimp simp: pool_inv_def)
  apply linarith
  done

lemma run_inv: "pool_inv s \<Longrightarrow> run e c s = (Inr v, s') \<Longrightarrow> pool_inv s'"
  by (cases c)
     (auto simp: run_def bnd_Inr ret_eq
        dest: add_liquidity_inv remove_liquidity_inv claim_withdrawal_inv
              swap_cspr_for_token_inv swap_token_for_cspr_inv compound_inv)

subsection \<open>Where a subtraction can underflow\<close>

lemma rebalance_stake_no_underflow:
  "rebalance_stake s \<noteq> (Inl (Panic ArithmeticUnderflow), s')"
  by (auto simp add: rebalance_stake_def delegate_to_validator_def Inl_simps Inr_simps
      arith_defs split: if_splits)

lemma undelegate_underflow:
  "undelegate_for_withdrawal amount s = (Inl (Panic ArithmeticUnderflow), s') \<Longrightarrow>
     staked_cspr s + buffer_cspr s < amount"
  by (auto simp add: undelegate_for_withdrawal_def undelegate_from_validator_def Inl_simps
      Inr_simps arith_defs split: if_splits)

lemma get_amount_out_underflow:
  "get_amount_out a rin rout s = (Inl (Panic ArithmeticUnderflow), s') \<Longrightarrow>
     10000 < swap_fee_bps s"
  by (auto simp add: get_amount_out_def Inl_simps Inr_simps arith_defs split: if_splits)

lemma swap_token_for_cspr_underflow:
  "swap_token_for_cspr e token_in m s = (Inl (Panic ArithmeticUnderflow), s') \<Longrightarrow>
     10000 < swap_fee_bps s"
  apply (clarsimp simp add: swap_token_for_cspr_def Inl_simps Inr_simps)
  apply (erule disjE)
   apply (erule get_amount_out_underflow)
  apply clarsimp
  apply (drule get_amount_out_Inr)
  apply (auto dest!: transfer_token_from_Inl transfer_token_from_Inr
      simp: arith_defs split: if_splits
      dest: quoteOut_lt [where fee = "swap_fee_bps s" and a = token_in])
  done

lemma swap_cspr_for_token_liquidity:
  "swap_cspr_for_token e m s \<noteq> (Inl (Revert ''Insufficient liquidity''), s')"
  apply (clarsimp simp add: swap_cspr_for_token_def Inl_simps Inr_simps Let_def)
  apply (erule disjE)
   apply (drule get_amount_out_Inl, simp)
  apply clarsimp
  apply (drule get_amount_out_Inr)
  apply (erule disjE)
   apply (clarsimp simp: quoteOut_lt)
  apply (auto simp: arith_defs split: if_splits dest!: rebalance_stake_Inl transfer_token_Inl)
  done

lemma demo_swap_token_for_cspr:
  "run demo_env (SwapTokenForCspr 1000 0) demo_pool =
     (Inr (RetU512 996),
      demo_pool\<lparr>reserve_cspr := 999999004, reserve_token := 1000001000,
        buffer_cspr := 99999004,
        trace := [TokenTransferFrom 1 3 1000, TransferTokens 1 996,
                  Emit (Swap 1 0 996 1000 0)]\<rparr>)"
  by (simp add: run_def swap_token_for_cspr_def get_amount_out_def transfer_token_from_def
      exec_defs arith_defs limit_defs demo_pool_def demo_env_def)

subsection \<open>Sample runs and the front end\<close>

lemma demo_swap_cspr_for_token:
  "swap_cspr_for_token demo_env 0 demo_pool =
     (Inr 90661089,
      demo_pool\<lparr>reserve_cspr := 1100000000, reserve_token := 909338911,
        buffer_cspr := 110000000, staked_cspr := 990000000,
        trace := [AuctionDelegate 7 90000000, TokenTransfer 1 90661089,
                  Emit (Swap 1 100000000 0 0 90661089)]\<rparr>)"
  by (simp add: swap_cspr_for_token_def get_amount_out_def transfer_token_def
      rebalance_stake_def delegate_to_validator_def exec_defs arith_defs limit_defs
      demo_pool_def demo_env_def)

lemma demo_swap_token_direct:
  "swap_token_for_cspr demo_env 1000 0 demo_pool =
     (Inr 996,
      demo_pool\<lparr>reserve_cspr := 999999004, reserve_token := 1000001000,
        buffer_cspr := 99999004,
        trace := [TokenTransferFrom 1 3 1000, TransferTokens 1 996,
                  Emit (Swap 1 0 996 1000 0)]\<rparr>)"
  by (simp add: swap_token_for_cspr_def get_amount_out_def transfer_token_from_def
      exec_defs arith_defs limit_defs demo_pool_def demo_env_def)

lemma demo_get_amount_out:
  "get_amount_out 1000 1000000000 1000000000 demo_pool = (Inr 996, demo_pool) \<and>
   get_amount_out 1001 1000000000 1000000000 demo_pool = (Inr 996, demo_pool)"
  by (simp add: get_amount_out_def exec_defs arith_defs limit_defs demo_pool_def)

lemma bigint_div_nonneg: "0 \<le> a \<Longrightarrow> 0 < b \<Longrightarrow> bigint_div a b = Some (a div b)"
  by (cases "a = 0") (simp_all add: bigint_div_def)

lemma getAmountOut_quoteOut:
  assumes "0 < amount_in" "0 < reserve_in" "0 < reserve_out"
  shows "getAmountOut (int amount_in) (int reserve_in) (int reserve_out) =
           Some (int (quoteOut 30 amount_in reserve_in reserve_out))"
proof -
  have fee: "bigint_div (int amount_in * 9970) 10000 = Some (int (amount_in * 9970 div 10000))"
    by (simp add: bigint_div_nonneg zdiv_int)
  have out: "bigint_div (int (amount_in * 9970 div 10000) * int reserve_out)
               (int reserve_in + int (amount_in * 9970 div 10000)) =
             Some (int (amount_in * 9970 div 10000 * reserve_out
                          div (reserve_in + amount_in * 9970 div 10000)))"
    using assms by (simp add: bigint_div_nonneg zdiv_int)
  from assms fee out show ?thesis
    by (simp add: getAmountOut_def quoteOut_def Let_def)
qed

lemma get_amount_out_returns:
  assumes "0 < a" "0 < rin" "0 < rout" "swap_fee_bps s \<le> 10000"
    and "a * (10000 - swap_fee_bps s) < U512_LIMIT"
    and "a * (10000 - swap_fee_bps s) div 10000 * rout < U512_LIMIT"
    and "rin + a * (10000 - swap_fee_bps s) div 10000 < U512_LIMIT"
  shows "get_amount_out a rin rout s = (Inr (quoteOut (swap_fee_bps s) a rin rout), s)"
proof -
  have "swap_fee_bps s < U64_LIMIT" using assms(4) by (simp add: U64_LIMIT_def)
  with assms show ?thesis
    by (simp add: get_amount_out_def quoteOut_def Let_def exec_defs arith_defs)
qed

lemma sqrt_1e18: "sqrt 1000000000000000000 = Inr 1000000000"
  by (simp add: sqrt_def sqrt_loop.simps arith_defs limit_defs)

lemma first_deposit:
  assumes empty: "lp_total_supply s = 0" "reserve_cspr s = 0" "reserve_token s = 0"
      "staked_cspr s = 0" "buffer_cspr s = 0"
    and cfg: "minimum_liquidity s = 1000" "buffer_target_bps s \<le> 10000"
      "token_address s \<noteq> None" "validator s \<noteq> None" "lp_pool s = Some (caller e)"
    and bal: "lp_balances s zero_address = 0" "lp_balances s (caller e) = 0"
      "caller e \<noteq> zero_address"
    and args: "attached_value e = 1000000000" "min_lp_tokens \<le> 999999000"
  shows "fst (add_liquidity e 1000000000 min_lp_tokens s) = Inr 999999000 \<and>
         lp_balances (snd (add_liquidity e 1000000000 min_lp_tokens s)) (caller e) = 999999000 \<and>
         lp_balances (snd (add_liquidity e 1000000000 min_lp_tokens s)) zero_address = 1000 \<and>
         lp_total_supply (snd (add_liquidity e 1000000000 min_lp_tokens s)) = 1000000000 \<and>
         reserve_cspr (snd (add_liquidity e 1000000000 min_lp_tokens s)) = 1000000000 \<and>
         reserve_token (snd (add_liquidity e 1000000000 min_lp_tokens s)) = 1000000000"
proof -
  from cfg obtain tok val where tv: "token_address s = Some tok" "validator s = Some val"
    by auto
  have bps: "buffer_target_bps s < U64_LIMIT" "1000000000 * buffer_target_bps s < U512_LIMIT"
    using cfg(2) by (simp_all add: limit_defs)
  have tgt: "1000000000 * buffer_target_bps s div 10000 \<le> 1000000000"
    using cfg(2) by simp
  show ?thesis
    using empty cfg(1) cfg(5) bal args tv bps tgt
    apply (simp add: add_liquidity_def total_supply_def lp_mint_def require_pool_def cep18_mint_def
        transfer_token_from_def rebalance_stake_def delegate_to_validator_def sqrt_1e18
        exec_defs arith_defs limit_defs Let_def)
    apply arith
    done
qed

lemma fresh_pool_eq:
  "fresh_pool = \<lparr>token_address = Some 5, lp_total_supply = 0, lp_balances = (\<lambda>_. 0),
     lp_pool = Some 1, reserve_cspr = 0, reserve_token = 0, staked_cspr = 0, buffer_cspr = 0,
     validator = Some 7, buffer_target_bps = 1000, swap_fee_bps = 30, protocol_fee_bps = 1000,
     treasury = Some 9, withdrawal_counter = 0, withdrawals = Map.empty,
     user_withdrawals = (\<lambda>_. []), admin = Some 1, minimum_liquidity = 1000, trace = []\<rparr>"
  by (simp add: fresh_pool_def init_def lp_init_def cep18_init_def exec_defs unset_contract_def
      first_env_def MINIMUM_LIQUIDITY_def fun_eq_iff)

lemma fresh_first_deposit:
  "add_liquidity first_env 1000000000 0 fresh_pool =
     (Inr 999999000,
      fresh_pool\<lparr>lp_total_supply := 1000000000,
        lp_balances := (\<lambda>a. if a = 1 then 999999000 else if a = 0 then 1000 else 0),
        reserve_cspr := 1000000000, reserve_token := 1000000000,
        staked_cspr := 900000000, buffer_cspr := 100000000,
        trace := [TokenTransferFrom 1 3 1000000000, AuctionDelegate 7 900000000,
                  Emit (LiquidityAdded 1 1000000000 1000000000 999999000)]\<rparr>)"
  by (simp add: fresh_pool_eq first_env_def add_liquidity_def total_supply_def lp_mint_def
      require_pool_def cep18_mint_def transfer_token_from_def rebalance_stake_def
      delegate_to_validator_def sqrt_1e18 zero_address_def exec_defs arith_defs limit_defs
      Let_def fun_eq_iff)

lemma rebalance_stake_Inr:
  "rebalance_stake s = (Inr u, s') \<Longrightarrow>
     buffer_target_bps s < U64_LIMIT \<and>
     (target_buffer s < buffer_cspr s \<longrightarrow>
        (\<exists>v. validator s = Some v \<and>
           s' = s\<lparr>trace := trace s @ [AuctionDelegate v (buffer_cspr s - target_buffer s)],
                   buffer_cspr := target_buffer s,
                   staked_cspr := staked_cspr s + (buffer_cspr s - target_buffer s)\<rparr>)) \<and>
     (buffer_cspr s \<le> target_buffer s \<longrightarrow> s' = s)"
  by (auto simp add: rebalance_stake_def delegate_to_validator_def target_buffer_def Inr_simps
      arith_Inr split: if_splits)

lemma rebalance_stake_returns:
  assumes "buffer_target_bps s < U64_LIMIT"
    and "reserve_cspr s * buffer_target_bps s < U512_LIMIT"
    and "validator s \<noteq> None"
    and "staked_cspr s + buffer_cspr s < U512_LIMIT"
  shows "fst (rebalance_stake s) = Inr ()"
  using assms
  by (auto simp add: rebalance_stake_def delegate_to_validator_def exec_defs arith_defs
      split: if_splits)

lemma deposit_scenario:
  assumes "buffer_target_bps s = 1000" "reserve_cspr s = 1000000000"
    and "10000000 < buffer_cspr s" "attached_value e = 100000000"
    and "add_liquidity e token_amount m s = (Inr lp, s')"
  shows "reserve_cspr s' = 1100000000 \<and> buffer_cspr s' = 110000000 \<and>
         staked_cspr s' = staked_cspr s + (buffer_cspr s - 10000000)"
  using assms
  apply (cases "lp_total_supply s = 0")
   apply (clarsimp simp add: add_liquidity_def Inr_simps Let_def total_supply_iff arith_Inr)
   apply (drule lp_mint_Inr)
   apply (drule transfer_token_from_Inr)
   apply (drule rebalance_stake_Inr)
   apply (drule lp_mint_Inr)
   apply (clarsimp simp: target_buffer_def)
  apply (clarsimp simp add: add_liquidity_def Inr_simps Let_def total_supply_iff arith_Inr)
  apply (drule transfer_token_from_Inr)
  apply (drule rebalance_stake_Inr)
  apply (drule lp_mint_Inr)
  apply (clarsimp simp: target_buffer_def)
  done

lemma demo_rebalance:
  "rebalance_stake over_buffered_pool =
     (Inr (), over_buffered_pool\<lparr>buffer_cspr := 110000000, staked_cspr := 990000000,
        trace := [AuctionDelegate 7 90000000]\<rparr>)"
  by (simp add: rebalance_stake_def delegate_to_validator_def exec_defs arith_defs limit_defs
      over_buffered_pool_def demo_pool_def)

lemma demo_rebalance_idle: "rebalance_stake demo_pool = (Inr (), demo_pool)"
  by (simp add: rebalance_stake_def delegate_to_validator_def exec_defs arith_defs limit_defs
      demo_pool_def)

lemma demo_deposit:
  "add_liquidity demo_env 100000000 0 demo_pool =
     (Inr 100000000,
      demo_pool\<lparr>lp_total_supply := 1100000000,
        lp_balances := (\<lambda>a. if a = 1 then 1099999000 else if a = 0 then 1000 else 0),
        reserve_cspr := 1100000000, reserve_token := 1100000000,
        staked_cspr := 990000000, buffer_cspr := 110000000,
        trace := [TokenTransferFrom 1 3 100000000, AuctionDelegate 7 90000000,
                  Emit (LiquidityAdded 1 100000000 100000000 100000000)]\<rparr>)"
  by (simp add: demo_pool_def demo_env_def add_liquidity_def total_supply_def lp_mint_def
      require_pool_def cep18_mint_def transfer_token_from_def rebalance_stake_def
      delegate_to_validator_def exec_defs arith_defs limit_defs Let_def fun_eq_iff)

lemma claim_withdrawal_eq:
  "claim_withdrawal e i s =
     (case withdrawals s i of
        None \<Rightarrow> (Inl (Panic (ExpectFailed ''Withdrawal not found'')), s)
      | Some r \<Rightarrow>
          if w_user r \<noteq> caller e then (Inl (Revert ''Not your withdrawal''), s)
          else if w_claimed r then (Inl (Revert ''Already claimed''), s)
          else if block_time e < w_claimable_time r then (Inl (Revert ''Still unbonding''), s)
          else (Inr (w_cspr_amount r),
                s\<lparr>withdrawals := (withdrawals s)(i \<mapsto> r\<lparr>w_claimed := True\<rparr>),
                  trace := trace s @ [TransferTokens (caller e) (w_cspr_amount r),
                    Emit (WithdrawalClaimed (caller e) i (w_cspr_amount r))]\<rparr>))"
  by (auto simp add: claim_withdrawal_def exec_defs Let_def split: option.splits)

lemma claim_withdrawal_Inr:
  "claim_withdrawal e i s = (Inr v, s') \<Longrightarrow>
     \<exists>r. withdrawals s i = Some r \<and> w_user r = caller e \<and> \<not> w_claimed r \<and>
         w_claimable_time r \<le> block_time e \<and> v = w_cspr_amount r \<and>
         withdrawals s' i = Some (r\<lparr>w_claimed := True\<rparr>)"
  by (auto simp add: claim_withdrawal_eq not_less split: option.splits if_splits)

lemma demo_claim:
  "claim_withdrawal (owner_env 50400000) 0 demo_queue_pool = (Inr 1000, demo_claimed_pool)"
  by (simp add: claim_withdrawal_eq owner_env_def demo_queue_pool_def demo_claimed_pool_def
      demo_request_def demo_pool_def)

lemma demo_claim_early:
  "claim_withdrawal (owner_env 50399999) 0 demo_queue_pool =
     (Inl (Revert ''Still unbonding''), demo_queue_pool)"
  by (simp add: claim_withdrawal_eq owner_env_def demo_queue_pool_def demo_request_def)

lemma demo_claim_again:
  "claim_withdrawal (owner_env 50400001) 0 demo_claimed_pool =
     (Inl (Revert ''Already claimed''), demo_claimed_pool)"
  by (simp add: claim_withdrawal_eq owner_env_def demo_claimed_pool_def demo_request_def)

lemma demo_claim_stranger:
  "claim_withdrawal (stranger_env 50400001) 0 demo_claimed_pool =
     (Inl (Revert ''Not your withdrawal''), demo_claimed_pool)"
  by (simp add: claim_withdrawal_eq stranger_env_def demo_claimed_pool_def demo_request_def)

lemma swap_token_for_cspr_buffer:
  assumes "get_amount_out token_in (reserve_token s) (reserve_cspr s) s = (Inr cspr_out, s)"
    and "buffer_cspr s < cspr_out"
  shows "swap_token_for_cspr e token_in min_cspr_out s =
    (if min_cspr_out \<le> cspr_out then (Inl insufficient_buffer, s)
     else (Inl (Revert ''Slippage exceeded''), s))"
proof -
  from get_amount_out_Inr [OF assms(1)] have "0 < token_in" by simp
  with assms show ?thesis
    by (simp add: swap_token_for_cspr_def exec_defs insufficient_buffer_def)
qed

lemma swap_token_for_cspr_buffer_Inl:
  "swap_token_for_cspr e token_in min_cspr_out s = (Inl insufficient_buffer, s') \<Longrightarrow>
     s' = s \<and>
     buffer_cspr s < quoteOut (swap_fee_bps s) token_in (reserve_token s) (reserve_cspr s)"
  apply (clarsimp simp add: swap_token_for_cspr_def Inl_simps Inr_simps insufficient_buffer_def)
  apply (erule disjE)
   apply (drule get_amount_out_Inl, simp)
  apply clarsimp
  apply (drule get_amount_out_Inr)
  apply (erule disjE)
   apply clarsimp
  apply (auto simp: arith_defs split: if_splits dest!: transfer_token_from_Inl)
  done

lemma demo_big_quote:
  "get_amount_out 200000000 (reserve_token demo_pool) (reserve_cspr demo_pool) demo_pool =
     (Inr 166249791, demo_pool) \<and> buffer_cspr demo_pool < 166249791"
  by (simp add: get_amount_out_def exec_defs arith_defs limit_defs demo_pool_def)

subsection \<open>Shares of the reserves\<close>

lemma share_le:
  assumes "lp * R \<le> b * (T::nat)"
  shows "lp * (R + b) div (T + lp) \<le> b"
proof -
  have "lp * (R + b) = lp * R + lp * b" by (simp add: algebra_simps)
  also have "\<dots> \<le> b * T + lp * b" using assms by simp
  also have "\<dots> = b * (T + lp)" by (simp add: algebra_simps)
  finally have "lp * (R + b) div (T + lp) \<le> b * (T + lp) div (T + lp)"
    by (rule div_le_mono)
  also have "\<dots> \<le> b" by (cases "T + lp = 0") simp_all
  finally show ?thesis .
qed

lemma floor_share_le: "lp \<le> b * T div R \<Longrightarrow> lp * R \<le> b * (T::nat)"
proof -
  assume "lp \<le> b * T div R"
  then have "lp * R \<le> (b * T div R) * R" by (rule mult_le_mono1)
  also have "\<dots> \<le> b * T" by simp
  finally show ?thesis .
qed

lemma share_ge:
  assumes R: "0 < (R::nat)" and D: "0 < T + lp" and lp: "lp = b * T div R"
  shows "b \<le> lp * (R + b) div (T + lp) + 1 + R div (T + lp)"
proof -
  define D where "D = T + lp"
  define out where "out = lp * (R + b) div D"
  have D0: "0 < D" using D by (simp add: D_def)
  have 1: "b * T < R + lp * R"
    unfolding lp using R by (rule dividend_less_div_times)
  have 2: "lp * (R + b) < D + out * D"
    unfolding out_def using D0 by (rule dividend_less_div_times)
  have 3: "R < D + (R div D) * D"
    using D0 by (rule dividend_less_div_times)
  have "b * D = b * T + b * lp" by (simp add: D_def algebra_simps)
  also have "\<dots> < R + lp * R + b * lp" using 1 by simp
  also have "\<dots> = lp * (R + b) + R" by (simp add: algebra_simps)
  also have "\<dots> < (D + out * D) + (D + (R div D) * D)" using 2 3 by (rule add_strict_mono)
  also have "\<dots> = (out + 2 + R div D) * D" by (simp add: algebra_simps)
  finally have "b * D < (out + 2 + R div D) * D" .
  then have "b < out + 2 + R div D" by (simp only: mult_less_cancel2)
  then show ?thesis by (simp add: out_def D_def)
qed

lemma add_liquidity_first_Inr:
  "lp_total_supply s = 0 \<Longrightarrow> add_liquidity e token_amount m s = (Inr lp, s') \<Longrightarrow>
     reserve_cspr s' = reserve_cspr s + attached_value e \<and>
     reserve_token s' = reserve_token s + token_amount \<and>
     lp_total_supply s' = minimum_liquidity s + lp"
  apply (clarsimp simp add: add_liquidity_def Inr_simps Let_def total_supply_iff arith_Inr)
  apply (drule lp_mint_Inr)
  apply (drule transfer_token_from_Inr)
  apply (drule rebalance_stake_sum)
  apply (drule lp_mint_Inr)
  apply clarsimp
  done

lemma add_liquidity_next_Inr:
  "lp_total_supply s \<noteq> 0 \<Longrightarrow> add_liquidity e token_amount m s = (Inr lp, s') \<Longrightarrow>
     reserve_cspr s \<noteq> 0 \<and> reserve_token s \<noteq> 0 \<and>
     lp = min (attached_value e * lp_total_supply s div reserve_cspr s)
              (token_amount * lp_total_supply s div reserve_token s) \<and>
     reserve_cspr s' = reserve_cspr s + attached_value e \<and>
     reserve_token s' = reserve_token s + token_amount \<and>
     lp_total_supply s' = lp_total_supply s + lp"
  apply (clarsimp simp add: add_liquidity_def Inr_simps Let_def total_supply_iff arith_Inr)
  apply (drule transfer_token_from_Inr)
  apply (drule rebalance_stake_sum)
  apply (drule lp_mint_Inr)
  apply (clarsimp simp: min_def)
  done

lemma remove_liquidity_Inr:
  "remove_liquidity e lp_amount mc mt s = (Inr wid, s') \<Longrightarrow>
     0 < lp_amount \<and> lp_total_supply s \<noteq> 0 \<and>
     (\<exists>r. withdrawals s' wid = Some r \<and>
          w_cspr_amount r = lp_amount * reserve_cspr s div lp_total_supply s \<and>
          w_token_amount r = lp_amount * reserve_token s div lp_total_supply s \<and>
          w_user r = caller e \<and> \<not> w_claimed r)"
  by (clarsimp simp add: remove_liquidity_def Inr_simps Let_def arith_Inr total_supply_iff
      balance_of_iff)

lemma demo_imbalanced_deposit:
  "add_liquidity imbalanced_env 100000000 0 demo_pool =
     (Inr 100000000,
      demo_pool\<lparr>lp_total_supply := 1100000000,
        lp_balances := (\<lambda>a. if a = 1 then 1099999000 else if a = 0 then 1000 else 0),
        reserve_cspr := 1200000000, reserve_token := 1100000000,
        staked_cspr := 1080000000, buffer_cspr := 120000000,
        trace := [TokenTransferFrom 1 3 100000000, AuctionDelegate 7 180000000,
                  Emit (LiquidityAdded 1 200000000 100000000 100000000)]\<rparr>)"
  by (simp add: demo_pool_def imbalanced_env_def add_liquidity_def total_supply_def lp_mint_def
      require_pool_def cep18_mint_def transfer_token_from_def rebalance_stake_def
      delegate_to_validator_def exec_defs arith_defs limit_defs Let_def fun_eq_iff)

lemma after_first_deposit_eq:
  "after_first_deposit =
     \<lparr>token_address = Some 5, lp_total_supply = 1000000000,
      lp_balances = (\<lambda>a. if a = 1 then 999999000 else if a = 0 then 1000 else 0),
      lp_pool = Some 1, reserve_cspr = 1000000000, reserve_token = 1000000000,
      staked_cspr = 900000000, buffer_cspr = 100000000, validator = Some 7,
      buffer_target_bps = 1000, swap_fee_bps = 30, protocol_fee_bps = 1000,
      treasury = Some 9, withdrawal_counter = 0, withdrawals = Map.empty,
      user_withdrawals = (\<lambda>_. []), admin = Some 1, minimum_liquidity = 1000,
      trace = [TokenTransferFrom 1 3 1000000000, AuctionDelegate 7 900000000,
               Emit (LiquidityAdded 1 1000000000 1000000000 999999000)]\<rparr>"
  unfolding after_first_deposit_def fresh_first_deposit
  by (simp add: fresh_pool_eq)

lemma after_imbalanced_deposit_eq:
  "after_imbalanced_deposit =
     \<lparr>token_address = Some 5, lp_total_supply = 1100000000,
      lp_balances = (\<lambda>a. if a = 1 then 1099999000 else if a = 0 then 1000 else 0),
      lp_pool = Some 1, reserve_cspr = 1200000000, reserve_token = 1100000000,
      staked_cspr = 1080000000, buffer_cspr = 120000000, validator = Some 7,
      buffer_target_bps = 1000, swap_fee_bps = 30, protocol_fee_bps = 1000,
      treasury = Some 9, withdrawal_counter = 0, withdrawals = Map.empty,
      user_withdrawals = (\<lambda>_. []), admin = Some 1, minimum_liquidity = 1000,
      trace = [TokenTransferFrom 1 3 100000000, AuctionDelegate 7 180000000,
               Emit (LiquidityAdded 1 200000000 100000000 100000000)]\<rparr>"
  unfolding after_imbalanced_deposit_def demo_imbalanced_deposit
  by (simp add: demo_pool_def)

lemma first_round_trip:
  "fst (remove_liquidity first_env 999999000 0 0 after_first_deposit) = Inr 0 \<and>
   map_option w_cspr_amount
     (withdrawals (snd (remove_liquidity first_env 999999000 0 0 after_first_deposit)) 0)
     = Some 999999000 \<and>
   map_option w_token_amount
     (withdrawals (snd (remove_liquidity first_env 999999000 0 0 after_first_deposit)) 0)
     = Some 999999000"
  by (simp add: after_first_deposit_eq first_env_def
      remove_liquidity_def balance_of_def total_supply_def lp_burn_def require_pool_def
      cep18_burn_def transfer_token_def undelegate_for_withdrawal_def
      undelegate_from_validator_def exec_defs arith_defs limit_defs Let_def)

lemma imbalanced_round_trip:
  "fst (remove_liquidity imbalanced_env 100000000 0 0 after_imbalanced_deposit) = Inr 0 \<and>
   map_option w_cspr_amount
     (withdrawals (snd (remove_liquidity imbalanced_env 100000000 0 0 after_imbalanced_deposit)) 0)
     = Some 109090909 \<and>
   map_option w_token_amount
     (withdrawals (snd (remove_liquidity imbalanced_env 100000000 0 0 after_imbalanced_deposit)) 0)
     = Some 100000000"
  by (simp add: after_imbalanced_deposit_eq imbalanced_env_def
      remove_liquidity_def balance_of_def total_supply_def lp_burn_def
      require_pool_def cep18_burn_def transfer_token_def undelegate_for_withdrawal_def
      undelegate_from_validator_def exec_defs arith_defs limit_defs Let_def)

lemma after_balanced_deposit_eq:
  "after_balanced_deposit =
     \<lparr>token_address = Some 5, lp_total_supply = 1100000000,
      lp_balances = (\<lambda>a. if a = 1 then 1099999000 else if a = 0 then 1000 else 0),
      lp_pool = Some 1, reserve_cspr = 1100000000, reserve_token = 1100000000,
      staked_cspr = 990000000, buffer_cspr = 110000000, validator = Some 7,
      buffer_target_bps = 1000, swap_fee_bps = 30, protocol_fee_bps = 1000,
      treasury = Some 9, withdrawal_counter = 0, withdrawals = Map.empty,
      user_withdrawals = (\<lambda>_. []), admin = Some 1, minimum_liquidity = 1000,
      trace = [TokenTransferFrom 1 3 100000000, AuctionDelegate 7 90000000,
               Emit (LiquidityAdded 1 100000000 100000000 100000000)]\<rparr>"
  unfolding after_balanced_deposit_def demo_deposit
  by (simp add: demo_pool_def)

lemma balanced_round_trip:
  "fst (remove_liquidity demo_env 100000000 0 0 after_balanced_deposit) = Inr 0 \<and>
   map_option w_cspr_amount
     (withdrawals (snd (remove_liquidity demo_env 100000000 0 0 after_balanced_deposit)) 0)
     = Some 100000000 \<and>
   map_option w_token_amount
     (withdrawals (snd (remove_liquidity demo_env 100000000 0 0 after_balanced_deposit)) 0)
     = Some 100000000"
  by (simp add: after_balanced_deposit_eq demo_env_def
      remove_liquidity_def balance_of_def total_supply_def lp_burn_def
      require_pool_def cep18_burn_def transfer_token_def undelegate_for_withdrawal_def
      undelegate_from_validator_def exec_defs arith_defs limit_defs Let_def)

section \<open>The claims\<close>

text \<open>
  C1. Every public operation (\<open>add_liquidity\<close>, \<open>remove_liquidity\<close>, \<open>claim_withdrawal\<close>,
  \<open>swap_cspr_for_token\<close>, \<open>swap_token_for_cspr\<close>, \<open>compound\<close>, dispatched by \<open>run\<close>) that
  returns leaves \<open>staked_cspr + buffer_cspr = reserve_cspr\<close> if that held before the call.
  The buffer is an unsigned value, and none of the three subtractions that decrease it
  can underflow: \<open>rebalance_stake\<close>, whose only subtraction is buffer minus target, never
  panics with an underflow; \<open>undelegate_for_withdrawal\<close> underflows only when the amount
  exceeds staked plus buffer, which is the subtraction from the staked amount;
  \<open>swap_token_for_cspr\<close>, which subtracts the output from the buffer after checking it
  against the buffer, underflows only in the fee multiplier, for a fee above 10000 basis
  points.
\<close>

theorem partition_preserved:
  "(pool_inv s \<and> run e c s = (Inr v, s') \<longrightarrow> pool_inv s') \<and>
   fst (rebalance_stake s) \<noteq> Inl (Panic ArithmeticUnderflow) \<and>
   (amount \<le> staked_cspr s + buffer_cspr s \<longrightarrow>
      fst (undelegate_for_withdrawal amount s) \<noteq> Inl (Panic ArithmeticUnderflow)) \<and>
   (swap_fee_bps s \<le> 10000 \<longrightarrow>
      fst (swap_token_for_cspr e token_in min_cspr_out s) \<noteq> Inl (Panic ArithmeticUnderflow))"
proof (intro conjI impI)
  assume "pool_inv s \<and> run e c s = (Inr v, s')"
  then show "pool_inv s'" by (blast intro: run_inv)
next
  show "fst (rebalance_stake s) \<noteq> Inl (Panic ArithmeticUnderflow)"
    using rebalance_stake_no_underflow [of s "snd (rebalance_stake s)"]
    by (cases "rebalance_stake s") auto
next
  assume le: "amount \<le> staked_cspr s + buffer_cspr s"
  show "fst (undelegate_for_withdrawal amount s) \<noteq> Inl (Panic ArithmeticUnderflow)"
  proof
    assume "fst (undelegate_for_withdrawal amount s) = Inl (Panic ArithmeticUnderflow)"
    then have "undelegate_for_withdrawal amount s =
        (Inl (Panic ArithmeticUnderflow), snd (undelegate_for_withdrawal amount s))"
      by (cases "undelegate_for_withdrawal amount s") auto
    from undelegate_underflow [OF this] le show False by simp
  qed
next
  assume ok: "swap_fee_bps s \<le> 10000"
  show "fst (swap_token_for_cspr e token_in min_cspr_out s) \<noteq> Inl (Panic ArithmeticUnderflow)"
  proof
    assume "fst (swap_token_for_cspr e token_in min_cspr_out s) = Inl (Panic ArithmeticUnderflow)"
    then have "swap_token_for_cspr e token_in min_cspr_out s =
        (Inl (Panic ArithmeticUnderflow), snd (swap_token_for_cspr e token_in min_cspr_out s))"
      by (cases "swap_token_for_cspr e token_in min_cspr_out s") auto
    from swap_token_for_cspr_underflow [OF this] ok show False
      by simp
  qed
qed

theorem partition_preserved_witness:
  "pool_inv demo_pool \<and>
   fst (run demo_env (SwapTokenForCspr 1000 0) demo_pool) = Inr (RetU512 996) \<and>
   pool_inv (snd (run demo_env (SwapTokenForCspr 1000 0) demo_pool)) \<and>
   buffer_cspr (snd (run demo_env (SwapTokenForCspr 1000 0) demo_pool)) = 99999004 \<and>
   (50 :: nat) \<le> staked_cspr demo_pool + buffer_cspr demo_pool \<and>
   fst (undelegate_for_withdrawal 50 demo_pool) \<noteq> Inl (Panic ArithmeticUnderflow) \<and>
   swap_fee_bps demo_pool \<le> 10000 \<and>
   fst (swap_token_for_cspr demo_env 1000 0 demo_pool) \<noteq> Inl (Panic ArithmeticUnderflow)"
proof -
  have inv: "pool_inv demo_pool"
    by (simp add: pool_inv_def demo_pool_def)
  have le: "(50 :: nat) \<le> staked_cspr demo_pool + buffer_cspr demo_pool"
    by (simp add: demo_pool_def)
  have fee: "swap_fee_bps demo_pool \<le> 10000"
    by (simp add: demo_pool_def)
  note ev = demo_swap_token_for_cspr
  from partition_preserved [of demo_pool demo_env "SwapTokenForCspr 1000 0" "RetU512 996"
      "snd (run demo_env (SwapTokenForCspr 1000 0) demo_pool)" 50 1000 0]
    inv le fee ev
  show ?thesis by simp
qed

text \<open>
  C2, as amended. On an empty pool (no LP supply, no reserves, nothing staked or buffered)
  with \<open>minimum_liquidity = 1000\<close>, \<open>add_liquidity\<close> with \<open>10^9\<close> attached and a token
  amount of \<open>10^9\<close> returns \<open>isqrt (10^18) - 1000 = 999999000\<close> (not 999999999000), mints
  that amount to the depositor and 1000 to the zero address, and leaves both reserves at
  \<open>10^9\<close>. The call returns under the conditions the source puts on it: the token and
  the validator are set, the depositor is the account \<open>require_pool\<close> accepts and is not
  the zero address, and the slippage bound is at most the minted amount.
\<close>

theorem first_deposit_mints:
  "lp_total_supply s = 0 \<and> reserve_cspr s = 0 \<and> reserve_token s = 0 \<and>
   staked_cspr s = 0 \<and> buffer_cspr s = 0 \<and> minimum_liquidity s = 1000 \<and>
   buffer_target_bps s \<le> 10000 \<and> token_address s \<noteq> None \<and> validator s \<noteq> None \<and>
   lp_pool s = Some (caller e) \<and> lp_balances s zero_address = 0 \<and>
   lp_balances s (caller e) = 0 \<and> caller e \<noteq> zero_address \<and>
   attached_value e = 1000000000 \<and> min_lp_tokens \<le> 999999000 \<and>
   add_liquidity e 1000000000 min_lp_tokens s = (r, s') \<longrightarrow>
     sqrt (1000000000 * 1000000000) = Inr 1000000000 \<and>
     r = Inr (1000000000 - 1000) \<and> r = Inr 999999000 \<and>
     lp_balances s' (caller e) = 999999000 \<and> lp_balances s' zero_address = 1000 \<and>
     lp_total_supply s' = 1000000000 \<and>
     reserve_cspr s' = 1000000000 \<and> reserve_token s' = 1000000000"
proof (intro impI)
  assume h: "lp_total_supply s = 0 \<and> reserve_cspr s = 0 \<and> reserve_token s = 0 \<and>
   staked_cspr s = 0 \<and> buffer_cspr s = 0 \<and> minimum_liquidity s = 1000 \<and>
   buffer_target_bps s \<le> 10000 \<and> token_address s \<noteq> None \<and> validator s \<noteq> None \<and>
   lp_pool s = Some (caller e) \<and> lp_balances s zero_address = 0 \<and>
   lp_balances s (caller e) = 0 \<and> caller e \<noteq> zero_address \<and>
   attached_value e = 1000000000 \<and> min_lp_tokens \<le> 999999000 \<and>
   add_liquidity e 1000000000 min_lp_tokens s = (r, s')"
  then have run: "add_liquidity e 1000000000 min_lp_tokens s = (r, s')" by simp
  from h have "fst (add_liquidity e 1000000000 min_lp_tokens s) = Inr 999999000 \<and>
         lp_balances (snd (add_liquidity e 1000000000 min_lp_tokens s)) (caller e) = 999999000 \<and>
         lp_balances (snd (add_liquidity e 1000000000 min_lp_tokens s)) zero_address = 1000 \<and>
         lp_total_supply (snd (add_liquidity e 1000000000 min_lp_tokens s)) = 1000000000 \<and>
         reserve_cspr (snd (add_liquidity e 1000000000 min_lp_tokens s)) = 1000000000 \<and>
         reserve_token (snd (add_liquidity e 1000000000 min_lp_tokens s)) = 1000000000"
    by (intro first_deposit) simp_all
  with run show "sqrt (1000000000 * 1000000000) = Inr 1000000000 \<and>
     r = Inr (1000000000 - 1000) \<and> r = Inr 999999000 \<and>
     lp_balances s' (caller e) = 999999000 \<and> lp_balances s' zero_address = 1000 \<and>
     lp_total_supply s' = 1000000000 \<and>
     reserve_cspr s' = 1000000000 \<and> reserve_token s' = 1000000000"
    by (simp add: sqrt_1e18)
qed

theorem first_deposit_mints_witness:
  "lp_total_supply fresh_pool = 0 \<and> reserve_cspr fresh_pool = 0 \<and>
   reserve_token fresh_pool = 0 \<and> minimum_liquidity fresh_pool = 1000 \<and>
   attached_value first_env = 1000000000 \<and>
   fst (add_liquidity first_env 1000000000 0 fresh_pool) = Inr 999999000 \<and>
   lp_balances (snd (add_liquidity first_env 1000000000 0 fresh_pool)) (caller first_env)
     = 999999000 \<and>
   reserve_cspr (snd (add_liquidity first_env 1000000000 0 fresh_pool)) = 1000000000 \<and>
   reserve_token (snd (add_liquidity first_env 1000000000 0 fresh_pool)) = 1000000000"
proof -
  have pre: "lp_total_supply fresh_pool = 0" "reserve_cspr fresh_pool = 0"
    "reserve_token fresh_pool = 0" "staked_cspr fresh_pool = 0" "buffer_cspr fresh_pool = 0"
    "minimum_liquidity fresh_pool = 1000" "buffer_target_bps fresh_pool \<le> 10000"
    "token_address fresh_pool \<noteq> None" "validator fresh_pool \<noteq> None"
    "lp_pool fresh_pool = Some (caller first_env)" "lp_balances fresh_pool zero_address = 0"
    "lp_balances fresh_pool (caller first_env) = 0" "caller first_env \<noteq> zero_address"
    "attached_value first_env = 1000000000"
    by (simp_all add: fresh_pool_eq first_env_def zero_address_def)
  from first_deposit_mints [of fresh_pool first_env 0
      "fst (add_liquidity first_env 1000000000 0 fresh_pool)"
      "snd (add_liquidity first_env 1000000000 0 fresh_pool)"] pre
  show ?thesis by simp
qed

theorem first_deposit_amount:
  "fst (add_liquidity first_env 1000000000 0 fresh_pool) = Inr 999999000 \<and>
   (999999000 :: nat) \<noteq> 999999999000"
  by (simp add: fresh_first_deposit)

text \<open>
  C3. A swap that returns, in either direction, had positive reserves before it, and the
  product \<open>reserve_cspr * reserve_token\<close> after it is at least the product before it.
\<close>

theorem swap_product_grows:
  "(swap_cspr_for_token e min_token_out s = (Inr token_out, s') \<longrightarrow>
      0 < reserve_cspr s \<and> 0 < reserve_token s \<and>
      reserve_cspr s * reserve_token s \<le> reserve_cspr s' * reserve_token s') \<and>
   (swap_token_for_cspr e token_in min_cspr_out s = (Inr cspr_out, s'') \<longrightarrow>
      0 < reserve_cspr s \<and> 0 < reserve_token s \<and>
      reserve_cspr s * reserve_token s \<le> reserve_cspr s'' * reserve_token s'')"
proof (intro conjI impI)
  assume a: "swap_cspr_for_token e min_token_out s = (Inr token_out, s')"
  note f = swap_cspr_for_token_Inr [OF a]
  from f show "0 < reserve_cspr s" by simp
  from f show "0 < reserve_token s" by simp
  from f quoteOut_product [of "reserve_cspr s" "reserve_token s" "attached_value e"
      "swap_fee_bps s"]
  show "reserve_cspr s * reserve_token s \<le> reserve_cspr s' * reserve_token s'"
    by simp
next
  assume a: "swap_token_for_cspr e token_in min_cspr_out s = (Inr cspr_out, s'')"
  note f = swap_token_for_cspr_Inr [OF a]
  from f show "0 < reserve_cspr s" by simp
  from f show "0 < reserve_token s" by simp
  from f quoteOut_product [of "reserve_token s" "reserve_cspr s" token_in "swap_fee_bps s"]
  show "reserve_cspr s * reserve_token s \<le> reserve_cspr s'' * reserve_token s''"
    by (simp add: mult.commute)
qed

theorem swap_product_grows_witness:
  "swap_cspr_for_token demo_env 0 demo_pool =
     (Inr 90661089, snd (swap_cspr_for_token demo_env 0 demo_pool)) \<and>
   swap_token_for_cspr demo_env 1000 0 demo_pool =
     (Inr 996, snd (swap_token_for_cspr demo_env 1000 0 demo_pool)) \<and>
   reserve_cspr demo_pool * reserve_token demo_pool = 1000000000000000000 \<and>
   reserve_cspr (snd (swap_cspr_for_token demo_env 0 demo_pool)) *
     reserve_token (snd (swap_cspr_for_token demo_env 0 demo_pool)) = 1000272802100000000 \<and>
   reserve_cspr (snd (swap_token_for_cspr demo_env 1000 0 demo_pool)) *
     reserve_token (snd (swap_token_for_cspr demo_env 1000 0 demo_pool)) =
       1000000003999004000 \<and>
   reserve_cspr demo_pool * reserve_token demo_pool \<le>
     reserve_cspr (snd (swap_cspr_for_token demo_env 0 demo_pool)) *
     reserve_token (snd (swap_cspr_for_token demo_env 0 demo_pool)) \<and>
   reserve_cspr demo_pool * reserve_token demo_pool \<le>
     reserve_cspr (snd (swap_token_for_cspr demo_env 1000 0 demo_pool)) *
     reserve_token (snd (swap_token_for_cspr demo_env 1000 0 demo_pool))"
proof -
  have ev1: "swap_cspr_for_token demo_env 0 demo_pool =
      (Inr 90661089, snd (swap_cspr_for_token demo_env 0 demo_pool))"
    by (simp add: demo_swap_cspr_for_token)
  have ev2: "swap_token_for_cspr demo_env 1000 0 demo_pool =
      (Inr 996, snd (swap_token_for_cspr demo_env 1000 0 demo_pool))"
    by (simp add: demo_swap_token_direct)
  have before: "reserve_cspr demo_pool * reserve_token demo_pool = 1000000000000000000"
    by (simp add: demo_pool_def)
  have after1: "reserve_cspr (snd (swap_cspr_for_token demo_env 0 demo_pool)) *
      reserve_token (snd (swap_cspr_for_token demo_env 0 demo_pool)) = 1000272802100000000"
    by (simp add: demo_swap_cspr_for_token)
  have after2: "reserve_cspr (snd (swap_token_for_cspr demo_env 1000 0 demo_pool)) *
      reserve_token (snd (swap_token_for_cspr demo_env 1000 0 demo_pool)) =
        1000000003999004000"
    by (simp add: demo_swap_token_direct)
  from swap_product_grows [of demo_env 0 demo_pool 90661089
      "snd (swap_cspr_for_token demo_env 0 demo_pool)" 1000 0 996
      "snd (swap_token_for_cspr demo_env 1000 0 demo_pool)"] ev1 ev2 before after1 after2
  show ?thesis by blast
qed

text \<open>
  C4. \<open>rebalance_stake\<close> computes \<open>target_buffer = reserve_cspr * buffer_target_bps div 10000\<close>.
  When it returns, the reserve is unchanged and the staked amount has not decreased; if the
  buffer was above the target, the buffer is now the target, the staked amount has grown
  by exactly the excess and the excess was delegated; if the buffer was at or below the
  target, nothing at all has changed. It does return when the basis points fit 64 bits,
  the product and the sum fit 512 bits and a validator is set. With a target of 1000
  basis points, a reserve of \<open>10^9\<close> and a deposit of \<open>10^8\<close> that enters the buffer (the
  buffer before it above \<open>10^7\<close>, as it is at its target \<open>10^8\<close>), the reserve becomes
  \<open>1.1 * 10^9\<close> and the buffer settles at \<open>1.1 * 10^8\<close>.
\<close>

theorem rebalance_stake_spec:
  "target_buffer s = reserve_cspr s * buffer_target_bps s div 10000 \<and>
   (rebalance_stake s = (Inr u, s') \<longrightarrow>
      reserve_cspr s' = reserve_cspr s \<and> staked_cspr s \<le> staked_cspr s' \<and>
      (target_buffer s < buffer_cspr s \<longrightarrow>
         buffer_cspr s' = target_buffer s \<and>
         staked_cspr s' = staked_cspr s + (buffer_cspr s - target_buffer s) \<and>
         (\<exists>v. validator s = Some v \<and>
            trace s' = trace s @ [AuctionDelegate v (buffer_cspr s - target_buffer s)])) \<and>
      (buffer_cspr s \<le> target_buffer s \<longrightarrow> s' = s)) \<and>
   (buffer_target_bps s < U64_LIMIT \<and> reserve_cspr s * buffer_target_bps s < U512_LIMIT \<and>
    validator s \<noteq> None \<and> staked_cspr s + buffer_cspr s < U512_LIMIT \<longrightarrow>
      fst (rebalance_stake s) = Inr ()) \<and>
   (buffer_target_bps s = 1000 \<and> reserve_cspr s = 1000000000 \<and> 10000000 < buffer_cspr s \<and>
    pool_inv s \<and> attached_value e = 100000000 \<and>
    add_liquidity e token_amount min_lp_tokens s = (Inr lp, s'') \<longrightarrow>
      reserve_cspr s'' = 1100000000 \<and> buffer_cspr s'' = 110000000 \<and>
      staked_cspr s'' = 990000000)"
proof (intro conjI impI)
  show "target_buffer s = reserve_cspr s * buffer_target_bps s div 10000"
    by (simp add: target_buffer_def)
next
  assume a: "rebalance_stake s = (Inr u, s')"
  from rebalance_stake_sum [OF a] show "reserve_cspr s' = reserve_cspr s" by simp
  from rebalance_stake_Inr [OF a] show "staked_cspr s \<le> staked_cspr s'"
    by (cases "target_buffer s < buffer_cspr s") auto
next
  assume a: "rebalance_stake s = (Inr u, s')" and b: "target_buffer s < buffer_cspr s"
  from rebalance_stake_Inr [OF a] b
  obtain v where v: "validator s = Some v"
    and s': "s' = s\<lparr>trace := trace s @ [AuctionDelegate v (buffer_cspr s - target_buffer s)],
                   buffer_cspr := target_buffer s,
                   staked_cspr := staked_cspr s + (buffer_cspr s - target_buffer s)\<rparr>"
    by auto
  from s' show "buffer_cspr s' = target_buffer s" by simp
  from s' show "staked_cspr s' = staked_cspr s + (buffer_cspr s - target_buffer s)" by simp
  from v s' show "\<exists>v. validator s = Some v \<and>
            trace s' = trace s @ [AuctionDelegate v (buffer_cspr s - target_buffer s)]"
    by simp
next
  assume a: "rebalance_stake s = (Inr u, s')" and b: "buffer_cspr s \<le> target_buffer s"
  from rebalance_stake_Inr [OF a] b show "s' = s" by simp
next
  assume "buffer_target_bps s < U64_LIMIT \<and>
    reserve_cspr s * buffer_target_bps s < U512_LIMIT \<and>
    validator s \<noteq> None \<and> staked_cspr s + buffer_cspr s < U512_LIMIT"
  then show "fst (rebalance_stake s) = Inr ()"
    by (intro rebalance_stake_returns) simp_all
next
  assume h: "buffer_target_bps s = 1000 \<and> reserve_cspr s = 1000000000 \<and>
    10000000 < buffer_cspr s \<and> pool_inv s \<and> attached_value e = 100000000 \<and>
    add_liquidity e token_amount min_lp_tokens s = (Inr lp, s'')"
  then have d: "reserve_cspr s'' = 1100000000 \<and> buffer_cspr s'' = 110000000 \<and>
         staked_cspr s'' = staked_cspr s + (buffer_cspr s - 10000000)"
    using deposit_scenario [of s e token_amount min_lp_tokens lp s''] by simp
  from d show "reserve_cspr s'' = 1100000000" "buffer_cspr s'' = 110000000" by simp_all
  from h have "staked_cspr s + buffer_cspr s = 1000000000" by (simp add: pool_inv_def)
  with d h show "staked_cspr s'' = 990000000" by simp
qed

theorem rebalance_stake_spec_witness:
  "rebalance_stake over_buffered_pool = (Inr (), snd (rebalance_stake over_buffered_pool)) \<and>
   target_buffer over_buffered_pool = 110000000 \<and>
   target_buffer over_buffered_pool < buffer_cspr over_buffered_pool \<and>
   buffer_cspr (snd (rebalance_stake over_buffered_pool)) = 110000000 \<and>
   staked_cspr (snd (rebalance_stake over_buffered_pool)) = 900000000 + 90000000 \<and>
   buffer_cspr demo_pool \<le> target_buffer demo_pool \<and>
   rebalance_stake demo_pool = (Inr (), demo_pool) \<and>
   buffer_target_bps demo_pool = 1000 \<and> reserve_cspr demo_pool = 1000000000 \<and>
   10000000 < buffer_cspr demo_pool \<and> pool_inv demo_pool \<and>
   attached_value demo_env = 100000000 \<and>
   fst (add_liquidity demo_env 100000000 0 demo_pool) = Inr 100000000 \<and>
   reserve_cspr (snd (add_liquidity demo_env 100000000 0 demo_pool)) = 1100000000 \<and>
   buffer_cspr (snd (add_liquidity demo_env 100000000 0 demo_pool)) = 110000000 \<and>
   staked_cspr (snd (add_liquidity demo_env 100000000 0 demo_pool)) = 990000000"
proof -
  have ev1: "rebalance_stake over_buffered_pool =
      (Inr (), snd (rebalance_stake over_buffered_pool))"
    by (simp add: demo_rebalance)
  have pre1: "target_buffer over_buffered_pool = 110000000"
    "target_buffer over_buffered_pool < buffer_cspr over_buffered_pool"
    "staked_cspr over_buffered_pool = 900000000"
    "buffer_cspr over_buffered_pool = 200000000"
    by (simp_all add: target_buffer_def over_buffered_pool_def demo_pool_def)
  have pre2: "buffer_cspr demo_pool \<le> target_buffer demo_pool"
    "buffer_target_bps demo_pool = 1000" "reserve_cspr demo_pool = 1000000000"
    "10000000 < buffer_cspr demo_pool" "pool_inv demo_pool"
    "attached_value demo_env = 100000000"
    by (simp_all add: target_buffer_def demo_pool_def demo_env_def pool_inv_def)
  have ev3: "add_liquidity demo_env 100000000 0 demo_pool =
      (Inr 100000000, snd (add_liquidity demo_env 100000000 0 demo_pool))"
    by (simp add: demo_deposit)
  from rebalance_stake_spec [of over_buffered_pool "()" "snd (rebalance_stake over_buffered_pool)"
      demo_env 100000000 0 100000000 "snd (add_liquidity demo_env 100000000 0 demo_pool)"]
    ev1 pre1
  have r1: "buffer_cspr (snd (rebalance_stake over_buffered_pool)) = 110000000 \<and>
    staked_cspr (snd (rebalance_stake over_buffered_pool)) = 900000000 + 90000000"
    by simp
  from rebalance_stake_spec [of demo_pool "()" demo_pool
      demo_env 100000000 0 100000000 "snd (add_liquidity demo_env 100000000 0 demo_pool)"]
    demo_rebalance_idle pre2 ev3
  have r2: "reserve_cspr (snd (add_liquidity demo_env 100000000 0 demo_pool)) = 1100000000 \<and>
   buffer_cspr (snd (add_liquidity demo_env 100000000 0 demo_pool)) = 110000000 \<and>
   staked_cspr (snd (add_liquidity demo_env 100000000 0 demo_pool)) = 990000000"
    by simp
  have ev4: "fst (add_liquidity demo_env 100000000 0 demo_pool) = Inr 100000000"
    by (simp add: demo_deposit)
  from ev1 pre1 pre2 demo_rebalance_idle ev4 r1 r2 show ?thesis by simp
qed

text \<open>
  C5, as amended. \<open>claim_withdrawal\<close> checks in this order: no record with that id
  ("Withdrawal not found", a panic), caller is not the record's owner ("Not your
  withdrawal"), record already claimed ("Already claimed"), block time before
  \<open>claimable_time\<close> ("Still unbonding"); each failure leaves the storage untouched.
  Otherwise it sets \<open>claimed\<close>, transfers \<open>cspr_amount\<close> to the owner and returns it. So a
  claim before \<open>claimable_time\<close> is rejected whoever makes it, and after a claim has
  succeeded no later attempt on that record succeeds: the owner's fails with "Already
  claimed", anybody else's with "Not your withdrawal".
\<close>

theorem claim_withdrawal_spec:
  "(withdrawals s i = None \<longrightarrow>
      claim_withdrawal e i s = (Inl (Panic (ExpectFailed ''Withdrawal not found'')), s)) \<and>
   (withdrawals s i = Some r \<and> w_user r \<noteq> caller e \<longrightarrow>
      claim_withdrawal e i s = (Inl (Revert ''Not your withdrawal''), s)) \<and>
   (withdrawals s i = Some r \<and> w_user r = caller e \<and> w_claimed r \<longrightarrow>
      claim_withdrawal e i s = (Inl (Revert ''Already claimed''), s)) \<and>
   (withdrawals s i = Some r \<and> w_user r = caller e \<and> \<not> w_claimed r \<and>
    block_time e < w_claimable_time r \<longrightarrow>
      claim_withdrawal e i s = (Inl (Revert ''Still unbonding''), s)) \<and>
   (withdrawals s i = Some r \<and> w_user r = caller e \<and> \<not> w_claimed r \<and>
    w_claimable_time r \<le> block_time e \<longrightarrow>
      claim_withdrawal e i s =
        (Inr (w_cspr_amount r),
         s\<lparr>withdrawals := (withdrawals s)(i \<mapsto> r\<lparr>w_claimed := True\<rparr>),
           trace := trace s @ [TransferTokens (w_user r) (w_cspr_amount r),
             Emit (WithdrawalClaimed (w_user r) i (w_cspr_amount r))]\<rparr>)) \<and>
   (withdrawals s i = Some r \<and> block_time e < w_claimable_time r \<longrightarrow>
      (\<exists>err. claim_withdrawal e i s = (Inl err, s))) \<and>
   (claim_withdrawal e i s = (Inr v, s') \<longrightarrow>
      (caller e' = caller e \<longrightarrow>
         claim_withdrawal e' i s' = (Inl (Revert ''Already claimed''), s')) \<and>
      (caller e' \<noteq> caller e \<longrightarrow>
         claim_withdrawal e' i s' = (Inl (Revert ''Not your withdrawal''), s')))"
proof (intro conjI impI)
  assume "withdrawals s i = None"
  then show "claim_withdrawal e i s = (Inl (Panic (ExpectFailed ''Withdrawal not found'')), s)"
    by (simp add: claim_withdrawal_eq)
next
  assume "withdrawals s i = Some r \<and> w_user r \<noteq> caller e"
  then show "claim_withdrawal e i s = (Inl (Revert ''Not your withdrawal''), s)"
    by (simp add: claim_withdrawal_eq)
next
  assume "withdrawals s i = Some r \<and> w_user r = caller e \<and> w_claimed r"
  then show "claim_withdrawal e i s = (Inl (Revert ''Already claimed''), s)"
    by (simp add: claim_withdrawal_eq)
next
  assume "withdrawals s i = Some r \<and> w_user r = caller e \<and> \<not> w_claimed r \<and>
    block_time e < w_claimable_time r"
  then show "claim_withdrawal e i s = (Inl (Revert ''Still unbonding''), s)"
    by (simp add: claim_withdrawal_eq)
next
  assume "withdrawals s i = Some r \<and> w_user r = caller e \<and> \<not> w_claimed r \<and>
    w_claimable_time r \<le> block_time e"
  then show "claim_withdrawal e i s =
        (Inr (w_cspr_amount r),
         s\<lparr>withdrawals := (withdrawals s)(i \<mapsto> r\<lparr>w_claimed := True\<rparr>),
           trace := trace s @ [TransferTokens (w_user r) (w_cspr_amount r),
             Emit (WithdrawalClaimed (w_user r) i (w_cspr_amount r))]\<rparr>)"
    by (simp add: claim_withdrawal_eq not_less)
next
  assume "withdrawals s i = Some r \<and> block_time e < w_claimable_time r"
  then show "\<exists>err. claim_withdrawal e i s = (Inl err, s)"
    by (simp add: claim_withdrawal_eq)
next
  assume a: "claim_withdrawal e i s = (Inr v, s')" and c: "caller e' = caller e"
  from claim_withdrawal_Inr [OF a] c
  show "claim_withdrawal e' i s' = (Inl (Revert ''Already claimed''), s')"
    by (auto simp add: claim_withdrawal_eq)
next
  assume a: "claim_withdrawal e i s = (Inr v, s')" and c: "caller e' \<noteq> caller e"
  from claim_withdrawal_Inr [OF a] c
  show "claim_withdrawal e' i s' = (Inl (Revert ''Not your withdrawal''), s')"
    by (auto simp add: claim_withdrawal_eq)
qed

theorem claim_withdrawal_spec_witness:
  "withdrawals demo_pool 0 = None \<and>
   claim_withdrawal (owner_env 50400000) 0 demo_pool =
     (Inl (Panic (ExpectFailed ''Withdrawal not found'')), demo_pool) \<and>
   withdrawals demo_queue_pool 0 = Some demo_request \<and>
   w_user demo_request \<noteq> caller (stranger_env 50400000) \<and>
   claim_withdrawal (stranger_env 50400000) 0 demo_queue_pool =
     (Inl (Revert ''Not your withdrawal''), demo_queue_pool) \<and>
   w_user demo_request = caller (owner_env 50399999) \<and> \<not> w_claimed demo_request \<and>
   block_time (owner_env 50399999) < w_claimable_time demo_request \<and>
   claim_withdrawal (owner_env 50399999) 0 demo_queue_pool =
     (Inl (Revert ''Still unbonding''), demo_queue_pool) \<and>
   w_claimable_time demo_request \<le> block_time (owner_env 50400000) \<and>
   claim_withdrawal (owner_env 50400000) 0 demo_queue_pool = (Inr 1000, demo_claimed_pool) \<and>
   withdrawals demo_claimed_pool 0 = Some (demo_request\<lparr>w_claimed := True\<rparr>) \<and>
   claim_withdrawal (owner_env 50400001) 0 demo_claimed_pool =
     (Inl (Revert ''Already claimed''), demo_claimed_pool) \<and>
   claim_withdrawal (stranger_env 50400001) 0 demo_claimed_pool =
     (Inl (Revert ''Not your withdrawal''), demo_claimed_pool)"
proof -
  have none: "withdrawals demo_pool 0 = None"
    by (simp add: demo_pool_def)
  have rec: "withdrawals demo_queue_pool 0 = Some demo_request"
    "w_user demo_request \<noteq> caller (stranger_env 50400000)"
    "w_user demo_request = caller (owner_env 50399999)"
    "w_user demo_request = caller (owner_env 50400000)" "\<not> w_claimed demo_request"
    "block_time (owner_env 50399999) < w_claimable_time demo_request"
    "w_claimable_time demo_request \<le> block_time (owner_env 50400000)"
    by (simp_all add: demo_queue_pool_def demo_request_def owner_env_def stranger_env_def)
  have marked: "withdrawals demo_claimed_pool 0 = Some (demo_request\<lparr>w_claimed := True\<rparr>)"
    by (simp add: demo_claimed_pool_def)
  have callers: "caller (owner_env 50400001) = caller (owner_env 50400000)"
    "caller (stranger_env 50400001) \<noteq> caller (owner_env 50400000)"
    by (simp_all add: owner_env_def stranger_env_def)
  from claim_withdrawal_spec [of demo_pool 0 "owner_env 50400000"] none
  have c1: "claim_withdrawal (owner_env 50400000) 0 demo_pool =
      (Inl (Panic (ExpectFailed ''Withdrawal not found'')), demo_pool)"
    by blast
  from claim_withdrawal_spec [of demo_queue_pool 0 "stranger_env 50400000" demo_request] rec
  have c2: "claim_withdrawal (stranger_env 50400000) 0 demo_queue_pool =
      (Inl (Revert ''Not your withdrawal''), demo_queue_pool)"
    by blast
  from claim_withdrawal_spec [of demo_queue_pool 0 "owner_env 50399999" demo_request] rec
  have c3: "claim_withdrawal (owner_env 50399999) 0 demo_queue_pool =
      (Inl (Revert ''Still unbonding''), demo_queue_pool)"
    by blast
  from claim_withdrawal_spec [of demo_queue_pool 0 "owner_env 50400000" demo_request 1000
      demo_claimed_pool "owner_env 50400001"] callers demo_claim
  have c4: "claim_withdrawal (owner_env 50400001) 0 demo_claimed_pool =
      (Inl (Revert ''Already claimed''), demo_claimed_pool)"
    by blast
  from claim_withdrawal_spec [of demo_queue_pool 0 "owner_env 50400000" demo_request 1000
      demo_claimed_pool "stranger_env 50400001"] callers demo_claim
  have c5: "claim_withdrawal (stranger_env 50400001) 0 demo_claimed_pool =
      (Inl (Revert ''Not your withdrawal''), demo_claimed_pool)"
    by blast
  from none rec marked c1 c2 c3 c4 c5 demo_claim show ?thesis by simp
qed

theorem claim_by_stranger_after_claim:
  "claim_withdrawal (owner_env 50400000) 0 demo_queue_pool = (Inr 1000, demo_claimed_pool) \<and>
   claim_withdrawal (stranger_env 50400001) 0 demo_claimed_pool =
     (Inl (Revert ''Not your withdrawal''), demo_claimed_pool) \<and>
   Revert ''Not your withdrawal'' \<noteq> Revert ''Already claimed''"
  using demo_claim demo_claim_stranger by simp

text \<open>
  C6, as amended. When the base output computed by \<open>swap_token_for_cspr\<close> exceeds
  \<open>buffer_cspr\<close> the call fails and the storage is exactly as before: with "Insufficient
  buffer" if the output meets \<open>min_cspr_out\<close>, and with "Slippage exceeded" otherwise,
  because the slippage check comes first. A call that fails with "Insufficient buffer"
  has written nothing, and its computed output exceeded the buffer.
\<close>

theorem insufficient_buffer_no_effect:
  "(get_amount_out token_in (reserve_token s) (reserve_cspr s) s = (Inr cspr_out, s) \<and>
    buffer_cspr s < cspr_out \<and> min_cspr_out \<le> cspr_out \<longrightarrow>
      swap_token_for_cspr e token_in min_cspr_out s = (Inl insufficient_buffer, s)) \<and>
   (get_amount_out token_in (reserve_token s) (reserve_cspr s) s = (Inr cspr_out, s) \<and>
    buffer_cspr s < cspr_out \<and> cspr_out < min_cspr_out \<longrightarrow>
      swap_token_for_cspr e token_in min_cspr_out s = (Inl (Revert ''Slippage exceeded''), s)) \<and>
   (swap_token_for_cspr e token_in min_cspr_out s = (Inl insufficient_buffer, s') \<longrightarrow>
      s' = s \<and>
      buffer_cspr s < quoteOut (swap_fee_bps s) token_in (reserve_token s) (reserve_cspr s))"
proof (intro conjI impI)
  assume "get_amount_out token_in (reserve_token s) (reserve_cspr s) s = (Inr cspr_out, s) \<and>
    buffer_cspr s < cspr_out \<and> min_cspr_out \<le> cspr_out"
  then show "swap_token_for_cspr e token_in min_cspr_out s = (Inl insufficient_buffer, s)"
    by (simp add: swap_token_for_cspr_buffer)
next
  assume "get_amount_out token_in (reserve_token s) (reserve_cspr s) s = (Inr cspr_out, s) \<and>
    buffer_cspr s < cspr_out \<and> cspr_out < min_cspr_out"
  then show "swap_token_for_cspr e token_in min_cspr_out s =
      (Inl (Revert ''Slippage exceeded''), s)"
    by (simp add: swap_token_for_cspr_buffer)
next
  assume a: "swap_token_for_cspr e token_in min_cspr_out s = (Inl insufficient_buffer, s')"
  from swap_token_for_cspr_buffer_Inl [OF a]
  show "s' = s"
    "buffer_cspr s < quoteOut (swap_fee_bps s) token_in (reserve_token s) (reserve_cspr s)"
    by simp_all
qed

theorem insufficient_buffer_no_effect_witness:
  "get_amount_out 200000000 (reserve_token demo_pool) (reserve_cspr demo_pool) demo_pool =
     (Inr 166249791, demo_pool) \<and>
   buffer_cspr demo_pool < 166249791 \<and> (0 :: nat) \<le> 166249791 \<and>
   swap_token_for_cspr demo_env 200000000 0 demo_pool = (Inl insufficient_buffer, demo_pool) \<and>
   (166249791 :: nat) < 170000000 \<and>
   swap_token_for_cspr demo_env 200000000 170000000 demo_pool =
     (Inl (Revert ''Slippage exceeded''), demo_pool) \<and>
   buffer_cspr demo_pool <
     quoteOut (swap_fee_bps demo_pool) 200000000 (reserve_token demo_pool) (reserve_cspr demo_pool)"
proof -
  from insufficient_buffer_no_effect [of 200000000 demo_pool 166249791 0 demo_env]
    demo_big_quote
  have fails: "swap_token_for_cspr demo_env 200000000 0 demo_pool =
      (Inl insufficient_buffer, demo_pool)"
    by simp
  from insufficient_buffer_no_effect [of 200000000 demo_pool 166249791 170000000 demo_env]
    demo_big_quote
  have slips: "swap_token_for_cspr demo_env 200000000 170000000 demo_pool =
      (Inl (Revert ''Slippage exceeded''), demo_pool)"
    by simp
  from insufficient_buffer_no_effect [of 200000000 demo_pool 166249791 0 demo_env demo_pool]
    fails
  have "buffer_cspr demo_pool <
     quoteOut (swap_fee_bps demo_pool) 200000000 (reserve_token demo_pool) (reserve_cspr demo_pool)"
    by simp
  with fails slips demo_big_quote show ?thesis by simp
qed

theorem slippage_before_buffer:
  "get_amount_out 200000000 (reserve_token demo_pool) (reserve_cspr demo_pool) demo_pool =
     (Inr 166249791, demo_pool) \<and>
   buffer_cspr demo_pool < 166249791 \<and>
   swap_token_for_cspr demo_env 200000000 170000000 demo_pool =
     (Inl (Revert ''Slippage exceeded''), demo_pool) \<and>
   Revert ''Slippage exceeded'' \<noteq> insufficient_buffer"
  using demo_big_quote
    swap_token_for_cspr_buffer [of 200000000 demo_pool 166249791 demo_env 170000000]
  by (simp add: insufficient_buffer_def)

text \<open>
  C7, as amended. When \<open>get_amount_out\<close> returns, its result is exactly the specification's
  \<open>quoteOut\<close> for the stored fee, in floor arithmetic, and it does return for positive
  arguments, a fee of at most 10000 basis points and products below \<open>2^512\<close>; the front
  end's \<open>getAmountOut\<close> is the same formula at the fixed fee of 30 basis points. With
  reserves \<open>(10^9, 10^9)\<close> and a fee of 30 basis points, \<open>swap_cspr_for_token\<close> with
  \<open>10^8\<close> attached has \<open>amountInWithFee = 99700000\<close> and returns
  \<open>99700000 * 10^9 div (10^9 + 99700000) = 90661089\<close> (leading digits 90661, not 90791),
  which is below \<open>10^8\<close>, and the token reserve afterwards is \<open>10^9\<close> minus that output.
\<close>

theorem get_amount_out_formula:
  "(get_amount_out amount_in reserve_in reserve_out s = (Inr out, s') \<longrightarrow>
      s' = s \<and> out = quoteOut (swap_fee_bps s) amount_in reserve_in reserve_out) \<and>
   (0 < amount_in \<and> 0 < reserve_in \<and> 0 < reserve_out \<and> swap_fee_bps s \<le> 10000 \<and>
    amount_in * (10000 - swap_fee_bps s) < U512_LIMIT \<and>
    amount_in * (10000 - swap_fee_bps s) div 10000 * reserve_out < U512_LIMIT \<and>
    reserve_in + amount_in * (10000 - swap_fee_bps s) div 10000 < U512_LIMIT \<longrightarrow>
      get_amount_out amount_in reserve_in reserve_out s =
        (Inr (quoteOut (swap_fee_bps s) amount_in reserve_in reserve_out), s)) \<and>
   (0 < amount_in \<and> 0 < reserve_in \<and> 0 < reserve_out \<longrightarrow>
      getAmountOut (int amount_in) (int reserve_in) (int reserve_out) =
        Some (int (quoteOut 30 amount_in reserve_in reserve_out))) \<and>
   (reserve_cspr s = 1000000000 \<and> reserve_token s = 1000000000 \<and> swap_fee_bps s = 30 \<and>
    attached_value e = 100000000 \<and> swap_cspr_for_token e 0 s = (Inr token_out, s'') \<longrightarrow>
      (100000000 :: nat) * (10000 - 30) div 10000 = 99700000 \<and>
      token_out = 99700000 * 1000000000 div (1000000000 + 99700000) \<and>
      token_out = 90661089 \<and> token_out < 100000000 \<and>
      reserve_token s'' = 1000000000 - token_out)"
proof (intro conjI impI)
  assume a: "get_amount_out amount_in reserve_in reserve_out s = (Inr out, s')"
  from get_amount_out_Inr [OF a]
  show "s' = s" "out = quoteOut (swap_fee_bps s) amount_in reserve_in reserve_out"
    by simp_all
next
  assume "0 < amount_in \<and> 0 < reserve_in \<and> 0 < reserve_out \<and> swap_fee_bps s \<le> 10000 \<and>
    amount_in * (10000 - swap_fee_bps s) < U512_LIMIT \<and>
    amount_in * (10000 - swap_fee_bps s) div 10000 * reserve_out < U512_LIMIT \<and>
    reserve_in + amount_in * (10000 - swap_fee_bps s) div 10000 < U512_LIMIT"
  then show "get_amount_out amount_in reserve_in reserve_out s =
        (Inr (quoteOut (swap_fee_bps s) amount_in reserve_in reserve_out), s)"
    by (intro get_amount_out_returns) simp_all
next
  assume "0 < amount_in \<and> 0 < reserve_in \<and> 0 < reserve_out"
  then show "getAmountOut (int amount_in) (int reserve_in) (int reserve_out) =
        Some (int (quoteOut 30 amount_in reserve_in reserve_out))"
    by (intro getAmountOut_quoteOut) simp_all
next
  show "(100000000 :: nat) * (10000 - 30) div 10000 = 99700000" by simp
next
  assume h: "reserve_cspr s = 1000000000 \<and> reserve_token s = 1000000000 \<and>
    swap_fee_bps s = 30 \<and> attached_value e = 100000000 \<and>
    swap_cspr_for_token e 0 s = (Inr token_out, s'')"
  then have sw: "swap_cspr_for_token e 0 s = (Inr token_out, s'')" by simp
  note f = swap_cspr_for_token_Inr [OF sw]
  from f h have out: "token_out = quoteOut 30 100000000 1000000000 1000000000" by simp
  have q: "quoteOut 30 100000000 1000000000 1000000000 = 90661089"
    by (simp add: quoteOut_def Let_def)
  from out q show "token_out = 99700000 * 1000000000 div (1000000000 + 99700000)" by simp
  from out q show v: "token_out = 90661089" by simp
  then show "token_out < 100000000" by simp
  from f h show "reserve_token s'' = 1000000000 - token_out" by simp
qed

theorem get_amount_out_formula_witness:
  "get_amount_out 1000 1000000000 1000000000 demo_pool = (Inr 996, demo_pool) \<and>
   quoteOut (swap_fee_bps demo_pool) 1000 1000000000 1000000000 = 996 \<and>
   getAmountOut 1000 1000000000 1000000000 = Some 996 \<and>
   reserve_cspr demo_pool = 1000000000 \<and> reserve_token demo_pool = 1000000000 \<and>
   swap_fee_bps demo_pool = 30 \<and> attached_value demo_env = 100000000 \<and>
   swap_cspr_for_token demo_env 0 demo_pool =
     (Inr 90661089, snd (swap_cspr_for_token demo_env 0 demo_pool)) \<and>
   reserve_token (snd (swap_cspr_for_token demo_env 0 demo_pool)) = 1000000000 - 90661089"
proof -
  have ev: "swap_cspr_for_token demo_env 0 demo_pool =
      (Inr 90661089, snd (swap_cspr_for_token demo_env 0 demo_pool))"
    by (simp add: demo_swap_cspr_for_token)
  have st: "reserve_cspr demo_pool = 1000000000" "reserve_token demo_pool = 1000000000"
    "swap_fee_bps demo_pool = 30" "attached_value demo_env = 100000000"
    by (simp_all add: demo_pool_def demo_env_def)
  have q: "quoteOut 30 1000 1000000000 1000000000 = 996"
    by (simp add: quoteOut_def Let_def)
  have ts: "getAmountOut 1000 1000000000 1000000000 = Some 996"
    by (simp add: getAmountOut_def bigint_div_def Let_def)
  from get_amount_out_formula [of 1000 1000000000 1000000000 demo_pool 996 demo_pool
      demo_env 90661089 "snd (swap_cspr_for_token demo_env 0 demo_pool)"]
    demo_get_amount_out ev st q ts
  show ?thesis by simp
qed

theorem swap_output_digits:
  "swap_cspr_for_token demo_env 0 demo_pool =
     (Inr 90661089, snd (swap_cspr_for_token demo_env 0 demo_pool)) \<and>
   (90661089 :: nat) div 1000 = 90661 \<and> (90661089 :: nat) div 1000 \<noteq> 90791"
  by (simp add: demo_swap_cspr_for_token)

text \<open>
  C8, as amended. With the reserves fixed, the output of \<open>get_amount_out\<close> is monotone in
  the input: a larger input never yields a smaller output. The output is always below
  \<open>reserve_out\<close>. (Strict monotonicity fails: the two floor divisions map neighbouring
  inputs to the same output.)
\<close>

theorem get_amount_out_monotone:
  "(a1 \<le> a2 \<and> get_amount_out a1 rin rout s = (Inr out1, s1) \<and>
      get_amount_out a2 rin rout s = (Inr out2, s2) \<longrightarrow> out1 \<le> out2) \<and>
   (get_amount_out a rin rout s = (Inr out, s') \<longrightarrow> out < rout)"
proof (intro conjI impI)
  assume h: "a1 \<le> a2 \<and> get_amount_out a1 rin rout s = (Inr out1, s1) \<and>
      get_amount_out a2 rin rout s = (Inr out2, s2)"
  then have "out1 = quoteOut (swap_fee_bps s) a1 rin rout"
    and "out2 = quoteOut (swap_fee_bps s) a2 rin rout"
    by (auto dest: get_amount_out_Inr)
  with h show "out1 \<le> out2" by (simp add: quoteOut_mono)
next
  assume "get_amount_out a rin rout s = (Inr out, s')"
  from get_amount_out_Inr [OF this] show "out < rout"
    by (simp add: quoteOut_lt)
qed

theorem get_amount_out_monotone_witness:
  "(1000 :: nat) \<le> 1001 \<and>
   get_amount_out 1000 1000000000 1000000000 demo_pool = (Inr 996, demo_pool) \<and>
   get_amount_out 1001 1000000000 1000000000 demo_pool = (Inr 996, demo_pool) \<and>
   (996 :: nat) \<le> 996 \<and> (996 :: nat) < 1000000000"
  using get_amount_out_monotone [of 1000 1001 1000000000 1000000000 demo_pool 996 demo_pool
      996 demo_pool 1000 996 demo_pool] demo_get_amount_out
  by simp

theorem get_amount_out_not_strict:
  "(1000 :: nat) < 1001 \<and>
   get_amount_out 1000 1000000000 1000000000 demo_pool = (Inr 996, demo_pool) \<and>
   get_amount_out 1001 1000000000 1000000000 demo_pool = (Inr 996, demo_pool) \<and>
   \<not> ((996 :: nat) < 996)"
  using demo_get_amount_out by simp

text \<open>
  C9, as amended. For a deposit accepted by \<open>add_liquidity\<close> into a pool whose reserves
  are zero whenever its LP supply is zero, removing the minted LP amount right away
  queues a withdrawal whose amounts never exceed what was deposited. For a deposit into a
  pool that already has LP supply, the leg whose ratio is the smaller one (the leg that
  fixes the minted amount) comes back short by at most \<open>1 + reserve div (supply + minted)\<close>
  units, with the reserve before the deposit and the supply after it; so by at most one
  unit when one LP unit is worth less than one unit of that asset. The loss is not
  bounded by one unit in general: a first deposit forfeits the share of the locked
  minimum liquidity, and the other leg of an imbalanced deposit is donated to the pool.
\<close>

theorem round_trip_bounds:
  "add_liquidity e token_amount min_lp_tokens s = (Inr lp, s1) \<and>
   remove_liquidity e' lp min_cspr min_token s1 = (Inr wid, s2) \<and>
   (lp_total_supply s = 0 \<longrightarrow> reserve_cspr s = 0 \<and> reserve_token s = 0) \<longrightarrow>
     (\<exists>r. withdrawals s2 wid = Some r \<and>
        w_cspr_amount r \<le> attached_value e \<and> w_token_amount r \<le> token_amount \<and>
        (lp_total_supply s \<noteq> 0 \<and>
         attached_value e * lp_total_supply s div reserve_cspr s
           \<le> token_amount * lp_total_supply s div reserve_token s \<longrightarrow>
           attached_value e
             \<le> w_cspr_amount r + 1 + reserve_cspr s div (lp_total_supply s + lp)) \<and>
        (lp_total_supply s \<noteq> 0 \<and>
         token_amount * lp_total_supply s div reserve_token s
           \<le> attached_value e * lp_total_supply s div reserve_cspr s \<longrightarrow>
           token_amount
             \<le> w_token_amount r + 1 + reserve_token s div (lp_total_supply s + lp)))"
proof (intro impI)
  assume h: "add_liquidity e token_amount min_lp_tokens s = (Inr lp, s1) \<and>
   remove_liquidity e' lp min_cspr min_token s1 = (Inr wid, s2) \<and>
   (lp_total_supply s = 0 \<longrightarrow> reserve_cspr s = 0 \<and> reserve_token s = 0)"
  then have add: "add_liquidity e token_amount min_lp_tokens s = (Inr lp, s1)"
    and rem: "remove_liquidity e' lp min_cspr min_token s1 = (Inr wid, s2)"
    and empty: "lp_total_supply s = 0 \<Longrightarrow> reserve_cspr s = 0 \<and> reserve_token s = 0"
    by simp_all
  from remove_liquidity_Inr [OF rem] obtain r where
    r: "withdrawals s2 wid = Some r"
    and rc: "w_cspr_amount r = lp * reserve_cspr s1 div lp_total_supply s1"
    and rt: "w_token_amount r = lp * reserve_token s1 div lp_total_supply s1"
    and lp0: "0 < lp"
    by auto
  define b where "b = attached_value e"
  define T where "T = lp_total_supply s"
  show "\<exists>r. withdrawals s2 wid = Some r \<and>
        w_cspr_amount r \<le> attached_value e \<and> w_token_amount r \<le> token_amount \<and>
        (lp_total_supply s \<noteq> 0 \<and>
         attached_value e * lp_total_supply s div reserve_cspr s
           \<le> token_amount * lp_total_supply s div reserve_token s \<longrightarrow>
           attached_value e
             \<le> w_cspr_amount r + 1 + reserve_cspr s div (lp_total_supply s + lp)) \<and>
        (lp_total_supply s \<noteq> 0 \<and>
         token_amount * lp_total_supply s div reserve_token s
           \<le> attached_value e * lp_total_supply s div reserve_cspr s \<longrightarrow>
           token_amount
             \<le> w_token_amount r + 1 + reserve_token s div (lp_total_supply s + lp))"
  proof (cases "lp_total_supply s = 0")
    case True
    from add_liquidity_first_Inr [OF True add] empty [OF True]
    have s1: "reserve_cspr s1 = 0 + b" "reserve_token s1 = 0 + token_amount"
      "lp_total_supply s1 = minimum_liquidity s + lp"
      by (simp_all add: b_def)
    have "lp * (0 + b) div (minimum_liquidity s + lp) \<le> b"
      by (rule share_le) simp
    moreover have "lp * (0 + token_amount) div (minimum_liquidity s + lp) \<le> token_amount"
      by (rule share_le) simp
    ultimately show ?thesis
      using r rc rt s1 True by (simp add: b_def)
  next
    case False
    note f = add_liquidity_next_Inr [OF False add]
    from f have s1: "reserve_cspr s1 = reserve_cspr s + b"
      "reserve_token s1 = reserve_token s + token_amount"
      "lp_total_supply s1 = T + lp"
      by (simp_all add: b_def T_def)
    from f have lpc: "lp \<le> b * T div reserve_cspr s"
      and lpt: "lp \<le> token_amount * T div reserve_token s"
      by (simp_all add: b_def T_def)
    from f have pos: "0 < reserve_cspr s" "0 < reserve_token s" by simp_all
    have D: "0 < T + lp" using lp0 by simp
    have up_c: "lp * (reserve_cspr s + b) div (T + lp) \<le> b"
      using lpc by (intro share_le floor_share_le)
    have up_t: "lp * (reserve_token s + token_amount) div (T + lp) \<le> token_amount"
      using lpt by (intro share_le floor_share_le)
    have low_c: "b \<le> lp * (reserve_cspr s + b) div (T + lp) + 1 + reserve_cspr s div (T + lp)"
      if "b * T div reserve_cspr s \<le> token_amount * T div reserve_token s"
    proof -
      from f that have "lp = b * T div reserve_cspr s" by (simp add: b_def T_def)
      with pos(1) D show ?thesis by (intro share_ge)
    qed
    have low_t: "token_amount \<le> lp * (reserve_token s + token_amount) div (T + lp) + 1 +
        reserve_token s div (T + lp)"
      if "token_amount * T div reserve_token s \<le> b * T div reserve_cspr s"
    proof -
      from f that have "lp = token_amount * T div reserve_token s" by (simp add: b_def T_def)
      with pos(2) D show ?thesis by (intro share_ge)
    qed
    from r rc rt s1 up_c up_t low_c low_t show ?thesis
      by (auto simp add: b_def T_def)
  qed
qed

theorem round_trip_bounds_witness:
  "add_liquidity demo_env 100000000 0 demo_pool = (Inr 100000000, after_balanced_deposit) \<and>
   fst (remove_liquidity demo_env 100000000 0 0 after_balanced_deposit) = Inr 0 \<and>
   lp_total_supply demo_pool \<noteq> 0 \<and>
   attached_value demo_env * lp_total_supply demo_pool div reserve_cspr demo_pool
     \<le> 100000000 * lp_total_supply demo_pool div reserve_token demo_pool \<and>
   reserve_cspr demo_pool div (lp_total_supply demo_pool + 100000000) = 0 \<and>
   (\<exists>r. withdrawals (snd (remove_liquidity demo_env 100000000 0 0 after_balanced_deposit)) 0
          = Some r \<and>
        w_cspr_amount r = 100000000 \<and> w_token_amount r = 100000000 \<and>
        w_cspr_amount r \<le> attached_value demo_env \<and> w_token_amount r \<le> 100000000 \<and>
        attached_value demo_env \<le> w_cspr_amount r + 1 + 0)"
proof -
  have add: "add_liquidity demo_env 100000000 0 demo_pool =
      (Inr 100000000, after_balanced_deposit)"
    by (simp add: after_balanced_deposit_def demo_deposit)
  have rem: "remove_liquidity demo_env 100000000 0 0 after_balanced_deposit =
      (Inr 0, snd (remove_liquidity demo_env 100000000 0 0 after_balanced_deposit))"
    using balanced_round_trip
    by (cases "remove_liquidity demo_env 100000000 0 0 after_balanced_deposit") simp
  have pre: "lp_total_supply demo_pool \<noteq> 0"
    "attached_value demo_env * lp_total_supply demo_pool div reserve_cspr demo_pool
     \<le> 100000000 * lp_total_supply demo_pool div reserve_token demo_pool"
    "reserve_cspr demo_pool div (lp_total_supply demo_pool + 100000000) = 0"
    "attached_value demo_env = 100000000"
    by (simp_all add: demo_pool_def demo_env_def)
  from round_trip_bounds [of demo_env 100000000 0 demo_pool 100000000 after_balanced_deposit
      demo_env 0 0 0 "snd (remove_liquidity demo_env 100000000 0 0 after_balanced_deposit)"]
    add rem pre balanced_round_trip
  show ?thesis by auto
qed

theorem round_trip_loses_more:
  "fst (add_liquidity first_env 1000000000 0 fresh_pool) = Inr 999999000 \<and>
   attached_value first_env = 1000000000 \<and>
   fst (remove_liquidity first_env 999999000 0 0 after_first_deposit) = Inr 0 \<and>
   map_option w_cspr_amount
     (withdrawals (snd (remove_liquidity first_env 999999000 0 0 after_first_deposit)) 0)
     = Some 999999000 \<and>
   (999999000 :: nat) < 1000000000 - 1 \<and>
   fst (add_liquidity imbalanced_env 100000000 0 demo_pool) = Inr 100000000 \<and>
   attached_value imbalanced_env = 200000000 \<and>
   fst (remove_liquidity imbalanced_env 100000000 0 0 after_imbalanced_deposit) = Inr 0 \<and>
   map_option w_cspr_amount
     (withdrawals (snd (remove_liquidity imbalanced_env 100000000 0 0 after_imbalanced_deposit)) 0)
     = Some 109090909 \<and>
   (109090909 :: nat) < 200000000 - 1"
proof -
  have a1: "fst (add_liquidity first_env 1000000000 0 fresh_pool) = Inr 999999000"
    by (simp add: fresh_first_deposit)
  have a2: "fst (add_liquidity imbalanced_env 100000000 0 demo_pool) = Inr 100000000"
    by (simp add: demo_imbalanced_deposit)
  have v: "attached_value first_env = 1000000000" "attached_value imbalanced_env = 200000000"
    by (simp_all add: first_env_def imbalanced_env_def)
  from a1 a2 v first_round_trip imbalanced_round_trip show ?thesis by simp
qed

text \<open>
  C10. Whenever \<open>get_amount_out\<close> returns, its result is strictly below \<open>reserve_out\<close>.
  So a \<open>swap_token_for_cspr\<close> that returns paid out less than the CSPR reserve and leaves
  a positive reserve, and the call never panics with an underflow unless the fee exceeds
  10000 basis points (the fee multiplier), although the source only compares the output
  with the buffer. In \<open>swap_cspr_for_token\<close> the check \<open>token_out < reserve_token\<close> never
  fails: the call never reverts with "Insufficient liquidity".
\<close>

theorem output_below_reserve:
  "(get_amount_out amount_in reserve_in reserve_out s = (Inr out, s') \<longrightarrow>
      0 < amount_in \<and> 0 < reserve_in \<and> 0 < reserve_out \<and> out < reserve_out) \<and>
   (swap_token_for_cspr e token_in min_cspr_out s = (Inr cspr_out, s'') \<longrightarrow>
      cspr_out < reserve_cspr s \<and> cspr_out \<le> buffer_cspr s \<and>
      reserve_cspr s'' = reserve_cspr s - cspr_out \<and> 0 < reserve_cspr s'') \<and>
   (swap_fee_bps s \<le> 10000 \<longrightarrow>
      fst (swap_token_for_cspr e token_in min_cspr_out s) \<noteq> Inl (Panic ArithmeticUnderflow)) \<and>
   fst (swap_cspr_for_token e min_token_out s) \<noteq> Inl (Revert ''Insufficient liquidity'')"
proof (intro conjI impI)
  assume a: "get_amount_out amount_in reserve_in reserve_out s = (Inr out, s')"
  note f = get_amount_out_Inr [OF a]
  from f show "0 < amount_in" "0 < reserve_in" "0 < reserve_out" by simp_all
  from f show "out < reserve_out" by (simp add: quoteOut_lt)
next
  assume a: "swap_token_for_cspr e token_in min_cspr_out s = (Inr cspr_out, s'')"
  note f = swap_token_for_cspr_Inr [OF a]
  from f show lt: "cspr_out < reserve_cspr s" by (simp add: quoteOut_lt)
  from f show "cspr_out \<le> buffer_cspr s" by simp
  from f show "reserve_cspr s'' = reserve_cspr s - cspr_out" by simp
  with lt show "0 < reserve_cspr s''" by simp
next
  assume ok: "swap_fee_bps s \<le> 10000"
  show "fst (swap_token_for_cspr e token_in min_cspr_out s) \<noteq> Inl (Panic ArithmeticUnderflow)"
  proof
    assume "fst (swap_token_for_cspr e token_in min_cspr_out s) = Inl (Panic ArithmeticUnderflow)"
    then have "swap_token_for_cspr e token_in min_cspr_out s =
        (Inl (Panic ArithmeticUnderflow), snd (swap_token_for_cspr e token_in min_cspr_out s))"
      by (cases "swap_token_for_cspr e token_in min_cspr_out s") auto
    from swap_token_for_cspr_underflow [OF this] ok show False by simp
  qed
next
  show "fst (swap_cspr_for_token e min_token_out s) \<noteq> Inl (Revert ''Insufficient liquidity'')"
    using swap_cspr_for_token_liquidity [of e min_token_out s
        "snd (swap_cspr_for_token e min_token_out s)"]
    by (cases "swap_cspr_for_token e min_token_out s") auto
qed

theorem output_below_reserve_witness:
  "get_amount_out 1000 1000000000 1000000000 demo_pool = (Inr 996, demo_pool) \<and>
   (996 :: nat) < 1000000000 \<and>
   swap_token_for_cspr demo_env 1000 0 demo_pool =
     (Inr 996, snd (swap_token_for_cspr demo_env 1000 0 demo_pool)) \<and>
   996 < reserve_cspr demo_pool \<and>
   reserve_cspr (snd (swap_token_for_cspr demo_env 1000 0 demo_pool)) = 999999004 \<and>
   swap_fee_bps demo_pool \<le> 10000 \<and>
   fst (swap_token_for_cspr demo_env 1000 0 demo_pool) \<noteq> Inl (Panic ArithmeticUnderflow) \<and>
   fst (swap_cspr_for_token demo_env 0 demo_pool) \<noteq> Inl (Revert ''Insufficient liquidity'')"
proof -
  have ev: "swap_token_for_cspr demo_env 1000 0 demo_pool =
      (Inr 996, snd (swap_token_for_cspr demo_env 1000 0 demo_pool))"
    by (simp add: demo_swap_token_direct)
  have rc: "reserve_cspr demo_pool = 1000000000" and fee: "swap_fee_bps demo_pool \<le> 10000"
    by (simp_all add: demo_pool_def)
  from output_below_reserve [of 1000 1000000000 1000000000 demo_pool 996 demo_pool
      demo_env 1000 0 996 "snd (swap_token_for_cspr demo_env 1000 0 demo_pool)" 0]
    demo_get_amount_out ev rc fee
  show ?thesis by simp
qed

end
